theory Spec2Isabelle
  imports Complex_Main "HOL-Library.Word"
begin

section \<open>Three_Motors_Chat.ino: data model\<close>

text \<open>
  The sketch targets the Arduino UNO R4 (see the comment above \<open>attachInterrupt\<close>):
  \<open>long\<close>, \<open>unsigned long\<close> and \<open>int\<close> are 32 bits wide, \<open>uint16_t\<close> is 16 bits,
  \<open>uint8_t\<close> is 8 bits. A signed value is the word read with \<open>sint\<close>; \<open>+\<close> and
  \<open>-\<close> on words wrap around, which is what the target does on \<open>cnt1++\<close> at
  \<open>LONG_MAX\<close> and what C++ prescribes for \<open>millis() - lastChange1\<close>.
\<close>

type_synonym long = "32 word"
type_synonym ulong = "32 word"
type_synonym cint = "32 word"
type_synonym uint16 = "16 word"
type_synonym uint8 = "8 word"

text \<open>\<open>struct Persist { long p1,p2,p3; uint16_t magic; };\<close>\<close>

record Persist =
  p1 :: long
  p2 :: long
  p3 :: long
  magic :: uint16

definition MAGIC :: uint16 where
  "MAGIC = 0xBEEF"

text \<open>
  The motor shield is an external library. Of it the sketch uses \<open>setSpeed\<close> and
  \<open>run\<close> on the three motor objects \<open>m1\<close>, \<open>m2\<close>, \<open>m3\<close>; the model keeps, per
  motor, the speed and the direction last commanded (\<open>None\<close> before the first command).
\<close>

datatype motor = M1 | M2 | M3

datatype direction = FORWARD | BACKWARD

text \<open>
  Every call that leaves the sketch towards the shield or the EEPROM is appended to a
  trace, oldest first: \<open>m->setSpeed(v)\<close>, \<open>m->run(d)\<close>, \<open>EEPROM.put(0, p)\<close>.
\<close>

datatype effect = SetSpeed motor uint8 | Run motor direction | Put Persist

text \<open>
  The globals of the sketch, the record stored at EEPROM address 0, the state of the
  shield, and the trace. \<open>Serial\<close> output, \<open>pinMode\<close> and \<open>delay\<close> change none of
  these and are left out.
\<close>

record state =
  cnt1 :: long
  cnt2 :: long
  cnt3 :: long
  steps1 :: cint
  steps2 :: cint
  steps3 :: cint
  lastChange1 :: ulong
  lastChange2 :: ulong
  lastChange3 :: ulong
  lastSaved1 :: long
  lastSaved2 :: long
  lastSaved3 :: long
  eeprom :: Persist
  speed :: "motor \<Rightarrow> uint8 option"
  dir :: "motor \<Rightarrow> direction option"
  trace :: "effect list"

text \<open>
  The state at power-up, before \<open>setup\<close>: every global holds its initialiser (all 0),
  no motor has been commanded, and the EEPROM holds whatever record \<open>p\<close> it held when the
  power went off.
\<close>

definition boot :: "Persist \<Rightarrow> state" where
  "boot p =
     \<lparr>cnt1 = 0, cnt2 = 0, cnt3 = 0,
      steps1 = 0, steps2 = 0, steps3 = 0,
      lastChange1 = 0, lastChange2 = 0, lastChange3 = 0,
      lastSaved1 = 0, lastSaved2 = 0, lastSaved3 = 0,
      eeprom = p,
      speed = (\<lambda>m. None), dir = (\<lambda>m. None), trace = []\<rparr>"

section \<open>EEPROM\<close>

text \<open>
  \<open>bool loadEEPROM(long &o1,long &o2,long &o3)\<close>: the reference parameters come in
  as values and go out in the result, after the returned flag.
\<close>

definition loadEEPROM :: "state \<Rightarrow> long \<Rightarrow> long \<Rightarrow> long \<Rightarrow> bool \<times> long \<times> long \<times> long" where
  "loadEEPROM s o1 o2 o3 =
     (let p = eeprom s in
      if magic p = MAGIC then (True, p1 p, p2 p, p3 p)
      else (False, o1, o2, o3))"

definition saveEEPROM :: "long \<Rightarrow> long \<Rightarrow> long \<Rightarrow> state \<Rightarrow> state" where
  "saveEEPROM o1 o2 o3 s =
     (let p = \<lparr>p1 = o1, p2 = o2, p3 = o3, magic = MAGIC\<rparr> in
      s\<lparr>eeprom := p, trace := trace s @ [Put p]\<rparr>)"

section \<open>Interrupt service routines\<close>

text \<open>
  \<open>a\<close> and \<open>b\<close> are the two levels \<open>digitalRead\<close> returns inside the routine,
  \<open>now\<close> is what \<open>millis()\<close> returns there.
\<close>

definition isrEnc1 :: "bool \<Rightarrow> bool \<Rightarrow> ulong \<Rightarrow> state \<Rightarrow> state" where
  "isrEnc1 a b now s =
     (let s = (if a = b then s\<lparr>cnt1 := cnt1 s + 1\<rparr> else s\<lparr>cnt1 := cnt1 s - 1\<rparr>)
      in s\<lparr>lastChange1 := now\<rparr>)"

definition isrEnc2 :: "bool \<Rightarrow> bool \<Rightarrow> ulong \<Rightarrow> state \<Rightarrow> state" where
  "isrEnc2 a b now s =
     (let s = (if a = b then s\<lparr>cnt2 := cnt2 s + 1\<rparr> else s\<lparr>cnt2 := cnt2 s - 1\<rparr>)
      in s\<lparr>lastChange2 := now\<rparr>)"

definition isrEnc3 :: "bool \<Rightarrow> bool \<Rightarrow> ulong \<Rightarrow> state \<Rightarrow> state" where
  "isrEnc3 a b now s =
     (let s = (if a = b then s\<lparr>cnt3 := cnt3 s + 1\<rparr> else s\<lparr>cnt3 := cnt3 s - 1\<rparr>)
      in s\<lparr>lastChange3 := now\<rparr>)"

section \<open>Motor commands\<close>

definition setSpeed :: "motor \<Rightarrow> uint8 \<Rightarrow> state \<Rightarrow> state" where
  "setSpeed m v s = s\<lparr>speed := (speed s)(m := Some v), trace := trace s @ [SetSpeed m v]\<rparr>"

definition run :: "motor \<Rightarrow> direction \<Rightarrow> state \<Rightarrow> state" where
  "run m d s = s\<lparr>dir := (dir s)(m := Some d), trace := trace s @ [Run m d]\<rparr>"

section \<open>Startup calibration\<close>

text \<open>
  The calibration is computed in floating point. The model takes the arithmetic of the
  target as a parameter: \<open>to_double\<close> and \<open>to_float\<close> round a real result to the
  \<open>double\<close> and the \<open>float\<close> format, and \<open>PI\<close> is the value of the macro \<open>PI\<close> of
  Arduino.h (a \<open>double\<close> literal), which is not part of the sketch. Each operation of
  the source is the real operation followed by the rounding into its result type.
\<close>

record fpu =
  to_float :: "real \<Rightarrow> real"
  to_double :: "real \<Rightarrow> real"
  PI :: real

text \<open>
  Exact arithmetic: no rounding, and \<open>PI\<close> is \<open>\<pi>\<close>.
\<close>

definition exact_fpu :: fpu where
  "exact_fpu = \<lparr>to_float = id, to_double = id, PI = pi\<rparr>"

text \<open>
  What the theorems below assume of the target's arithmetic: on the range of the normal
  \<open>float\<close> numbers, a rounding moves a value \<open>x\<close> by at most \<open>\<bar>x\<bar> / 2 ^ 23\<close> (IEEE 754
  rounds to nearest within \<open>\<bar>x\<bar> / 2 ^ 24\<close> in single and within \<open>\<bar>x\<bar> / 2 ^ 53\<close> in
  double precision), and the macro \<open>PI\<close> is \<open>\<pi>\<close> to three decimals.
\<close>

definition rounds :: "(real \<Rightarrow> real) \<Rightarrow> bool" where
  "rounds f \<longleftrightarrow> (\<forall>x. 1 / 2 ^ 126 \<le> \<bar>x\<bar> \<and> \<bar>x\<bar> \<le> 2 ^ 127 \<longrightarrow> \<bar>f x - x\<bar> \<le> \<bar>x\<bar> / 2 ^ 23)"

definition ieee :: "fpu \<Rightarrow> bool" where
  "ieee u \<longleftrightarrow> rounds (to_float u) \<and> rounds (to_double u) \<and> 3.141 \<le> PI u \<and> PI u \<le> 3.142"

text \<open>
  \<open>int(x)\<close> on a \<open>float\<close>: the fractional part is discarded (truncation toward zero),
  and the integer is stored in an \<open>int\<close>. C++ leaves the conversion undefined when the
  integer does not fit; the model wraps there, and no theorem below depends on it.
\<close>

definition truncate_toward_zero :: "real \<Rightarrow> int" where
  "truncate_toward_zero x = (if 0 \<le> x then \<lfloor>x\<rfloor> else \<lceil>x\<rceil>)"

definition float_to_int :: "real \<Rightarrow> cint" where
  "float_to_int x = word_of_int (truncate_toward_zero x)"

text \<open>
  \<open>float stepsPerMM = hall_feedback_resolution / (2.0*PI*(winch_diameter/2.0));\<close>
  with the two globals as arguments. \<open>2.0\<close> and \<open>PI\<close> are \<open>double\<close>, so the whole
  right-hand side is evaluated in \<open>double\<close> and rounded to \<open>float\<close> by the
  initialisation.
\<close>

definition stepsPerMM_of :: "fpu \<Rightarrow> real \<Rightarrow> real \<Rightarrow> real" where
  "stepsPerMM_of u resolution diameter =
     to_float u
       (to_double u (resolution /
          to_double u (to_double u (2 * PI u) * to_double u (diameter / 2))))"

text \<open>\<open>steps1 = int(distance1*stepsPerMM);\<close> with the global as an argument.\<close>

definition steps_of :: "fpu \<Rightarrow> real \<Rightarrow> real \<Rightarrow> cint" where
  "steps_of u distance stepsPerMM = float_to_int (to_float u (distance * stepsPerMM))"

text \<open>The configuration globals, which no statement of the sketch assigns.\<close>

definition distance1 :: real where "distance1 = 25"
definition distance2 :: real where "distance2 = 35"
definition distance3 :: real where "distance3 = 35"
definition motorspeed1 :: cint where "motorspeed1 = 30"
definition motorspeed2 :: cint where "motorspeed2 = 40"
definition motorspeed3 :: cint where "motorspeed3 = 40"
definition winch_diameter :: real where "winch_diameter = 7.0"
definition hall_feedback_resolution :: real where "hall_feedback_resolution = 1050.0 / 2.0"

section \<open>setup\<close>

text \<open>\<open>void setup()\<close>, named \<open>setup_ino\<close> here.\<close>

definition setup_ino :: "fpu \<Rightarrow> state \<Rightarrow> state" where
  "setup_ino u s0 =
     (let (ok, o1, o2, o3) = loadEEPROM s0 0 0 0;
          (o1, o2, o3, s) =
             (if \<not> ok then (0, 0, 0, saveEEPROM 0 0 0 s0) else (o1, o2, o3, s0));
          s = s\<lparr>cnt1 := o1, cnt2 := o2, cnt3 := o3\<rparr>;
          s = s\<lparr>lastSaved1 := cnt1 s, lastSaved2 := cnt2 s, lastSaved3 := cnt3 s\<rparr>;
          stepsPerMM = stepsPerMM_of u hall_feedback_resolution winch_diameter;
          s = s\<lparr>steps1 := steps_of u distance1 stepsPerMM\<rparr>;
          s = s\<lparr>steps2 := steps_of u distance2 stepsPerMM\<rparr>;
          s = s\<lparr>steps3 := steps_of u distance3 stepsPerMM\<rparr>;
          s = run M1 FORWARD (setSpeed M1 (ucast motorspeed1) s);
          s = run M2 FORWARD (setSpeed M2 (ucast motorspeed2) s);
          s = run M3 FORWARD (setSpeed M3 (ucast motorspeed3) s)
      in s)"

section \<open>loop\<close>

definition T_IDLE :: ulong where
  "T_IDLE = 5000"

text \<open>
  Lines 76 to 78 are one statement, written once per motor:
  \<open>if(c>=steps) m->run(BACKWARD); else if(c<0) m->run(FORWARD);\<close>
  where \<open>c\<close> is a \<open>long\<close> and \<open>steps\<close> an \<open>int\<close>, compared as signed values.
\<close>

definition loop_direction :: "motor \<Rightarrow> long \<Rightarrow> cint \<Rightarrow> state \<Rightarrow> state" where
  "loop_direction m c steps s =
     (if sint steps \<le> sint c then run m BACKWARD s
      else if sint c < 0 then run m FORWARD s
      else s)"

text \<open>
  Lines 81 to 83, one per channel; \<open>now\<close> is what \<open>millis()\<close> returns in the condition.
  The subtraction and the comparison with \<open>T_IDLE\<close> are unsigned.
\<close>

definition loop_save1 :: "ulong \<Rightarrow> long \<Rightarrow> state \<Rightarrow> state" where
  "loop_save1 now c1 s =
     (if T_IDLE < now - lastChange1 s \<and> c1 \<noteq> lastSaved1 s
      then (let s = s\<lparr>lastSaved1 := c1\<rparr>
            in saveEEPROM (lastSaved1 s) (lastSaved2 s) (lastSaved3 s) s)
      else s)"

definition loop_save2 :: "ulong \<Rightarrow> long \<Rightarrow> state \<Rightarrow> state" where
  "loop_save2 now c2 s =
     (if T_IDLE < now - lastChange2 s \<and> c2 \<noteq> lastSaved2 s
      then (let s = s\<lparr>lastSaved2 := c2\<rparr>
            in saveEEPROM (lastSaved1 s) (lastSaved2 s) (lastSaved3 s) s)
      else s)"

definition loop_save3 :: "ulong \<Rightarrow> long \<Rightarrow> state \<Rightarrow> state" where
  "loop_save3 now c3 s =
     (if T_IDLE < now - lastChange3 s \<and> c3 \<noteq> lastSaved3 s
      then (let s = s\<lparr>lastSaved3 := c3\<rparr>
            in saveEEPROM (lastSaved1 s) (lastSaved2 s) (lastSaved3 s) s)
      else s)"

text \<open>
  The three direction statements of one iteration, on the snapshot \<open>c1\<close>, \<open>c2\<close>,
  \<open>c3\<close> taken at the top of \<open>loop\<close>.
\<close>

definition loop_directions :: "state \<Rightarrow> state" where
  "loop_directions s0 =
     (let c1 = cnt1 s0; c2 = cnt2 s0; c3 = cnt3 s0;
          s = loop_direction M1 c1 (steps1 s0) s0;
          s = loop_direction M2 c2 (steps2 s) s;
          s = loop_direction M3 c3 (steps3 s) s
      in s)"

text \<open>
  One iteration of \<open>loop\<close>. \<open>t1\<close>, \<open>t2\<close>, \<open>t3\<close> are the values of the three calls
  of \<open>millis()\<close>, in order. The iteration is modelled without an interrupt arriving
  inside it; interrupts arrive between iterations (see \<open>exec\<close>).
\<close>

definition loop :: "ulong \<Rightarrow> ulong \<Rightarrow> ulong \<Rightarrow> state \<Rightarrow> state" where
  "loop t1 t2 t3 s0 =
     (let c1 = cnt1 s0; c2 = cnt2 s0; c3 = cnt3 s0;
          s = loop_directions s0;
          s = loop_save1 t1 c1 s;
          s = loop_save2 t2 c2 s;
          s = loop_save3 t3 c3 s
      in s)"

section \<open>Channels and runs\<close>

text \<open>
  A channel is a motor with its encoder and its globals. The accessors below select the
  globals of a channel, so that a statement about "every channel" is one statement.
\<close>

datatype chan = Ch1 | Ch2 | Ch3

fun motor_of :: "chan \<Rightarrow> motor" where
  "motor_of Ch1 = M1"
| "motor_of Ch2 = M2"
| "motor_of Ch3 = M3"

fun cnt :: "chan \<Rightarrow> state \<Rightarrow> long" where
  "cnt Ch1 s = cnt1 s"
| "cnt Ch2 s = cnt2 s"
| "cnt Ch3 s = cnt3 s"

fun steps :: "chan \<Rightarrow> state \<Rightarrow> cint" where
  "steps Ch1 s = steps1 s"
| "steps Ch2 s = steps2 s"
| "steps Ch3 s = steps3 s"

fun lastChange :: "chan \<Rightarrow> state \<Rightarrow> ulong" where
  "lastChange Ch1 s = lastChange1 s"
| "lastChange Ch2 s = lastChange2 s"
| "lastChange Ch3 s = lastChange3 s"

fun lastSaved :: "chan \<Rightarrow> state \<Rightarrow> long" where
  "lastSaved Ch1 s = lastSaved1 s"
| "lastSaved Ch2 s = lastSaved2 s"
| "lastSaved Ch3 s = lastSaved3 s"

text \<open>The routine that \<open>attachInterrupt\<close> registers for the A line of a channel.\<close>

fun isr :: "chan \<Rightarrow> bool \<Rightarrow> bool \<Rightarrow> ulong \<Rightarrow> state \<Rightarrow> state" where
  "isr Ch1 = isrEnc1"
| "isr Ch2 = isrEnc2"
| "isr Ch3 = isrEnc3"

text \<open>
  After \<open>setup\<close> the program is a sequence of events: an edge on the A line of a
  channel (with the two levels read and the time), or an iteration of \<open>loop\<close>. An
  edge that arrives inside \<open>setup\<close>, between \<open>attachInterrupt\<close> and its end, or
  inside an iteration is outside this model.
\<close>

datatype event = Edge chan bool bool ulong | Iteration ulong ulong ulong

fun step :: "state \<Rightarrow> event \<Rightarrow> state" where
  "step s (Edge ch a b now) = isr ch a b now s"
| "step s (Iteration t1 t2 t3) = loop t1 t2 t3 s"

definition exec :: "event list \<Rightarrow> state \<Rightarrow> state" where
  "exec evs s = foldl step s evs"

text \<open>The contribution of an event to the count of a channel.\<close>

fun delta :: "chan \<Rightarrow> event \<Rightarrow> int" where
  "delta ch (Edge ch' a b now) = (if ch' = ch then (if a = b then 1 else - 1) else 0)"
| "delta ch (Iteration t1 t2 t3) = 0"

section \<open>Reading the trace\<close>

text \<open>The effects issued on the way from \<open>s\<close> to \<open>s'\<close>.\<close>

definition issued :: "state \<Rightarrow> state \<Rightarrow> effect list" where
  "issued s s' = drop (length (trace s)) (trace s')"

fun runs_of :: "motor \<Rightarrow> effect list \<Rightarrow> direction list" where
  "runs_of m [] = []"
| "runs_of m (Run m' d # es) = (if m' = m then d # runs_of m es else runs_of m es)"
| "runs_of m (e # es) = runs_of m es"

fun puts_of :: "effect list \<Rightarrow> Persist list" where
  "puts_of [] = []"
| "puts_of (Put p # es) = p # puts_of es"
| "puts_of (e # es) = puts_of es"

text \<open>
  The command that the direction statement of a channel issues on the snapshot \<open>c\<close>
  and the target \<open>T\<close>, if any (see \<open>loop_direction_upd\<close>).
\<close>

definition direction_cmd :: "long \<Rightarrow> cint \<Rightarrow> direction option" where
  "direction_cmd c T =
     (if sint T \<le> sint c then Some BACKWARD else if sint c < 0 then Some FORWARD else None)"

text \<open>
  The persistence statement of a channel inside one iteration of \<open>loop\<close>: the clock
  value its condition reads, the state in which it starts and the state it leaves. The
  records it puts are the flushes of that channel in that iteration.
\<close>

fun clock :: "chan \<Rightarrow> ulong \<Rightarrow> ulong \<Rightarrow> ulong \<Rightarrow> ulong" where
  "clock Ch1 t1 t2 t3 = t1"
| "clock Ch2 t1 t2 t3 = t2"
| "clock Ch3 t1 t2 t3 = t3"

fun before_save :: "chan \<Rightarrow> ulong \<Rightarrow> ulong \<Rightarrow> ulong \<Rightarrow> state \<Rightarrow> state" where
  "before_save Ch1 t1 t2 t3 s = loop_directions s"
| "before_save Ch2 t1 t2 t3 s = loop_save1 t1 (cnt1 s) (loop_directions s)"
| "before_save Ch3 t1 t2 t3 s =
     loop_save2 t2 (cnt2 s) (loop_save1 t1 (cnt1 s) (loop_directions s))"

fun after_save :: "chan \<Rightarrow> ulong \<Rightarrow> ulong \<Rightarrow> ulong \<Rightarrow> state \<Rightarrow> state" where
  "after_save Ch1 t1 t2 t3 s = loop_save1 t1 (cnt1 s) (before_save Ch1 t1 t2 t3 s)"
| "after_save Ch2 t1 t2 t3 s = loop_save2 t2 (cnt2 s) (before_save Ch2 t1 t2 t3 s)"
| "after_save Ch3 t1 t2 t3 s = loop_save3 t3 (cnt3 s) (before_save Ch3 t1 t2 t3 s)"

definition flushes :: "chan \<Rightarrow> ulong \<Rightarrow> ulong \<Rightarrow> ulong \<Rightarrow> state \<Rightarrow> Persist list" where
  "flushes ch t1 t2 t3 s =
     puts_of (issued (before_save ch t1 t2 t3 s) (after_save ch t1 t2 t3 s))"

text \<open>The condition of the persistence statement of a channel, on the state \<open>s\<close>.\<close>

definition eligible :: "chan \<Rightarrow> ulong \<Rightarrow> state \<Rightarrow> bool" where
  "eligible ch now s \<longleftrightarrow> T_IDLE < now - lastChange ch s \<and> cnt ch s \<noteq> lastSaved ch s"

text \<open>The field of a persisted record that belongs to a channel.\<close>

fun count_of :: "chan \<Rightarrow> Persist \<Rightarrow> long" where
  "count_of Ch1 r = p1 r"
| "count_of Ch2 r = p2 r"
| "count_of Ch3 r = p3 r"

section \<open>Example inputs\<close>

text \<open>
  The record read from an EEPROM whose bytes are all \<open>0xFF\<close>, as the clearing
  sketch leaves it.
\<close>

definition erased :: Persist where
  "erased = \<lparr>p1 = - 1, p2 = - 1, p3 = - 1, magic = 0xFFFF\<rparr>"

text \<open>
  Channel 1 configured with the target 0 and standing at \<open>-1\<close>; with the target 0 and
  standing at 7.
\<close>

definition zero_target :: state where
  "zero_target = (boot erased)\<lparr>cnt1 := - 1, steps1 := 0\<rparr>"

definition zero_target_home :: state where
  "zero_target_home = (boot erased)\<lparr>cnt1 := 7, steps1 := 0\<rparr>"

text \<open>The six calls that end \<open>setup\<close>.\<close>

definition startup_cmds :: "effect list" where
  "startup_cmds =
     [SetSpeed M1 30, Run M1 FORWARD, SetSpeed M2 40, Run M2 FORWARD,
      SetSpeed M3 40, Run M3 FORWARD]"

text \<open>The position of the persistence statement of a channel in \<open>loop\<close>.\<close>

fun index :: "chan \<Rightarrow> nat" where
  "index Ch1 = 1"
| "index Ch2 = 2"
| "index Ch3 = 3"

text \<open>
  A run from power-up on an erased EEPROM: one edge on channel 1 at 100 ms, then two
  edges on channel 2 at 5998 ms and 5999 ms. At 6000 ms channel 1 has been idle for
  5900 ms, channel 2 for 1 ms.
\<close>

definition neighbour_moving :: state where
  "neighbour_moving =
     exec [Edge Ch1 True True 100, Edge Ch2 True True 5998, Edge Ch2 False False 5999]
       (setup_ino exact_fpu (boot erased))"

text \<open>
  A run from power-up on an erased EEPROM with one edge on channel 1 at 1000 ms: at
  6000 ms the channel has been idle for 5000 ms exactly.
\<close>

definition idle_exactly :: state where
  "idle_exactly = exec [Edge Ch1 True True 1000] (setup_ino exact_fpu (boot erased))"

text \<open>
  A run from power-up on an erased EEPROM with one edge on channel 1 whose levels
  differ: the count of channel 1 is \<open>-1\<close>.
\<close>

definition below_zero :: state where
  "below_zero = exec [Edge Ch1 True False 100] (setup_ino exact_fpu (boot erased))"

text \<open>
  An EEPROM that holds the valid record \<open>(5, 6, 7)\<close>, at power-up.
\<close>

definition stored_567 :: state where
  "stored_567 = boot \<lparr>p1 = 5, p2 = 6, p3 = 7, magic = 0xBEEF\<rparr>"

text \<open>Five events, three of them edges of channel 1 with the contributions +1, -1, +1.\<close>

definition short_run :: "event list" where
  "short_run =
     [Edge Ch1 True True 5, Edge Ch1 True False 6, Iteration 7 7 7,
      Edge Ch2 False False 8, Edge Ch1 False False 9]"

text \<open>
  An arithmetic without rounding whose \<open>PI\<close> is the decimal literal of Arduino.h.
\<close>

definition arduino_fpu :: fpu where
  "arduino_fpu = \<lparr>to_float = id, to_double = id, PI = 3.1415926535897932384626433832795\<rparr>"

section \<open>Auxiliary lemmas\<close>

subsection \<open>Traces\<close>

text \<open>Appending, and the effects issued along two consecutive stretches.\<close>

lemma puts_of_append: "puts_of (xs @ ys) = puts_of xs @ puts_of ys"
  by (induction xs rule: puts_of.induct) simp_all

lemma runs_of_append: "runs_of m (xs @ ys) = runs_of m xs @ runs_of m ys"
  by (induction m xs rule: runs_of.induct) simp_all

lemma issued_append: "trace s' = trace s @ es \<Longrightarrow> issued s s' = es"
  by (simp add: issued_def)

lemma issued_trans:
  assumes "trace b = trace a @ issued a b" "trace c = trace b @ issued b c"
  shows "issued a c = issued a b @ issued b c" "trace c = trace a @ issued a c"
proof -
  have "trace c = trace a @ (issued a b @ issued b c)"
    using assms by (metis append_assoc)
  then show "issued a c = issued a b @ issued b c"
    by (rule issued_append)
  with \<open>trace c = trace a @ (issued a b @ issued b c)\<close> show "trace c = trace a @ issued a c"
    by simp
qed

lemma last_last: "last (last (x # xs) # ys) = last (x # xs @ ys)"
  by (cases ys) simp_all

subsection \<open>The statements of loop as updates\<close>

text \<open>
  Each statement of \<open>loop\<close> written as one update of the state, with the condition
  inside the new field values.
\<close>

lemma loop_direction_upd:
  "loop_direction m c T s =
     s\<lparr>dir := (case direction_cmd c T of None \<Rightarrow> dir s | Some d \<Rightarrow> (dir s)(m := Some d)),
       trace := trace s @ (case direction_cmd c T of None \<Rightarrow> [] | Some d \<Rightarrow> [Run m d])\<rparr>"
  by (simp add: loop_direction_def run_def direction_cmd_def)

lemma loop_save1_upd:
  "loop_save1 now c s =
     (let f = T_IDLE < now - lastChange1 s \<and> c \<noteq> lastSaved1 s;
          r = \<lparr>p1 = c, p2 = lastSaved2 s, p3 = lastSaved3 s, magic = MAGIC\<rparr>
      in s\<lparr>lastSaved1 := (if f then c else lastSaved1 s),
           eeprom := (if f then r else eeprom s),
           trace := trace s @ (if f then [Put r] else [])\<rparr>)"
  by (simp add: loop_save1_def saveEEPROM_def Let_def)

lemma loop_save2_upd:
  "loop_save2 now c s =
     (let f = T_IDLE < now - lastChange2 s \<and> c \<noteq> lastSaved2 s;
          r = \<lparr>p1 = lastSaved1 s, p2 = c, p3 = lastSaved3 s, magic = MAGIC\<rparr>
      in s\<lparr>lastSaved2 := (if f then c else lastSaved2 s),
           eeprom := (if f then r else eeprom s),
           trace := trace s @ (if f then [Put r] else [])\<rparr>)"
  by (simp add: loop_save2_def saveEEPROM_def Let_def)

lemma loop_save3_upd:
  "loop_save3 now c s =
     (let f = T_IDLE < now - lastChange3 s \<and> c \<noteq> lastSaved3 s;
          r = \<lparr>p1 = lastSaved1 s, p2 = lastSaved2 s, p3 = c, magic = MAGIC\<rparr>
      in s\<lparr>lastSaved3 := (if f then c else lastSaved3 s),
           eeprom := (if f then r else eeprom s),
           trace := trace s @ (if f then [Put r] else [])\<rparr>)"
  by (simp add: loop_save3_def saveEEPROM_def Let_def)

lemmas loop_upds = loop_def loop_directions_def loop_direction_upd loop_save1_upd loop_save2_upd loop_save3_upd Let_def

lemma loop_direction_other:
  "cnt1 (loop_direction m c T s) = cnt1 s"
  "cnt2 (loop_direction m c T s) = cnt2 s"
  "cnt3 (loop_direction m c T s) = cnt3 s"
  "steps1 (loop_direction m c T s) = steps1 s"
  "steps2 (loop_direction m c T s) = steps2 s"
  "steps3 (loop_direction m c T s) = steps3 s"
  by (simp_all add: loop_direction_upd)

lemma loop_directions_chain:
  "loop_directions s =
     loop_direction M3 (cnt3 s) (steps3 s)
       (loop_direction M2 (cnt2 s) (steps2 s) (loop_direction M1 (cnt1 s) (steps1 s) s))"
  by (simp add: loop_directions_def Let_def loop_direction_other)

lemma loop_after_save: "loop t1 t2 t3 s = after_save Ch3 t1 t2 t3 s"
  by (simp add: loop_def Let_def)

lemma case_direction_cmd_puts [simp]:
  "puts_of (case x of None \<Rightarrow> [] | Some d \<Rightarrow> [Run m d]) = []"
  by (cases x) simp_all

subsection \<open>What an iteration issues\<close>

text \<open>
  The trace of an iteration is the trace before it followed by what the three direction
  statements and the three persistence statements issue, in that order.
\<close>

lemma loop_save1_trace: "trace (loop_save1 now c s) = trace s @ issued s (loop_save1 now c s)"
  by (simp add: loop_save1_upd issued_def Let_def)

lemma loop_save2_trace: "trace (loop_save2 now c s) = trace s @ issued s (loop_save2 now c s)"
  by (simp add: loop_save2_upd issued_def Let_def)

lemma loop_save3_trace: "trace (loop_save3 now c s) = trace s @ issued s (loop_save3 now c s)"
  by (simp add: loop_save3_upd issued_def Let_def)

lemma loop_direction_trace: "trace (loop_direction m c T s) = trace s @ issued s (loop_direction m c T s)"
  by (simp add: loop_direction_upd issued_def)

lemma loop_direction_runs:
  "runs_of m' (issued s (loop_direction m c T s)) =
     (if m' = m then (case direction_cmd c T of None \<Rightarrow> [] | Some d \<Rightarrow> [d]) else [])"
  by (cases "direction_cmd c T") (simp_all add: loop_direction_upd issued_def)

lemma loop_direction_puts: "puts_of (issued s (loop_direction m c T s)) = []"
  by (cases "direction_cmd c T") (simp_all add: loop_direction_upd issued_def)

lemma loop_directions_trace':
  "trace (loop_directions s) =
     trace s @
     (issued s (loop_direction M1 (cnt1 s) (steps1 s) s)
      @ issued (loop_direction M1 (cnt1 s) (steps1 s) s)
               (loop_direction M2 (cnt2 s) (steps2 s) (loop_direction M1 (cnt1 s) (steps1 s) s))
      @ issued (loop_direction M2 (cnt2 s) (steps2 s) (loop_direction M1 (cnt1 s) (steps1 s) s))
               (loop_direction M3 (cnt3 s) (steps3 s)
                 (loop_direction M2 (cnt2 s) (steps2 s) (loop_direction M1 (cnt1 s) (steps1 s) s))))"
  by (simp only: loop_directions_chain loop_direction_trace append_assoc)

lemma loop_directions_issued:
  "issued s (loop_directions s) =
     issued s (loop_direction M1 (cnt1 s) (steps1 s) s)
     @ issued (loop_direction M1 (cnt1 s) (steps1 s) s)
              (loop_direction M2 (cnt2 s) (steps2 s) (loop_direction M1 (cnt1 s) (steps1 s) s))
     @ issued (loop_direction M2 (cnt2 s) (steps2 s) (loop_direction M1 (cnt1 s) (steps1 s) s))
              (loop_direction M3 (cnt3 s) (steps3 s)
                 (loop_direction M2 (cnt2 s) (steps2 s) (loop_direction M1 (cnt1 s) (steps1 s) s)))"
  by (rule issued_append) (rule loop_directions_trace')

lemma loop_directions_trace:
  "trace (loop_directions s) = trace s @ issued s (loop_directions s)"
  by (simp only: loop_directions_issued) (rule loop_directions_trace')

lemma loop_directions_puts: "puts_of (issued s (loop_directions s)) = []"
  by (simp only: loop_directions_issued puts_of_append loop_direction_puts append_Nil)

lemma loop_directions_runs:
  "runs_of (motor_of ch) (issued s (loop_directions s)) =
     (case direction_cmd (cnt ch s) (steps ch s) of None \<Rightarrow> [] | Some d \<Rightarrow> [d])"
  by (cases ch) (simp_all only: loop_directions_issued runs_of_append loop_direction_runs,
    simp_all add: loop_direction_other)

lemma loop_issued:
  "issued s (loop t1 t2 t3 s) =
     issued s (loop_directions s)
     @ issued (before_save Ch1 t1 t2 t3 s) (after_save Ch1 t1 t2 t3 s)
     @ issued (before_save Ch2 t1 t2 t3 s) (after_save Ch2 t1 t2 t3 s)
     @ issued (before_save Ch3 t1 t2 t3 s) (after_save Ch3 t1 t2 t3 s)"
proof -
  have "trace (after_save Ch3 t1 t2 t3 s) =
          trace s @ (issued s (loop_directions s)
            @ issued (before_save Ch1 t1 t2 t3 s) (after_save Ch1 t1 t2 t3 s)
            @ issued (before_save Ch2 t1 t2 t3 s) (after_save Ch2 t1 t2 t3 s)
            @ issued (before_save Ch3 t1 t2 t3 s) (after_save Ch3 t1 t2 t3 s))"
    by (simp only: after_save.simps before_save.simps loop_save1_trace loop_save2_trace
        loop_save3_trace loop_directions_trace append_assoc)
  then show ?thesis
    by (simp only: loop_after_save issued_append)
qed

lemma loop_puts:
  "puts_of (issued s (loop t1 t2 t3 s)) =
     flushes Ch1 t1 t2 t3 s @ flushes Ch2 t1 t2 t3 s @ flushes Ch3 t1 t2 t3 s"
  by (simp only: loop_issued puts_of_append loop_directions_puts flushes_def append_Nil)

lemma loop_trace: "trace (loop t1 t2 t3 s) = trace s @ issued s (loop t1 t2 t3 s)"
proof -
  let ?d = "loop_directions s"
  let ?a = "after_save Ch1 t1 t2 t3 s"
  let ?b = "after_save Ch2 t1 t2 t3 s"
  let ?c = "after_save Ch3 t1 t2 t3 s"
  have 1: "trace ?a = trace ?d @ issued ?d ?a"
    by (simp add: loop_save1_trace)
  have 2: "trace ?b = trace ?a @ issued ?a ?b"
    by (simp add: loop_save2_trace)
  have 3: "trace ?c = trace ?b @ issued ?b ?c"
    by (simp add: loop_save3_trace)
  note da = issued_trans(2) [OF loop_directions_trace 1]
  note db = issued_trans(2) [OF da 2]
  note dc = issued_trans(2) [OF db 3]
  show ?thesis
    using dc by (simp only: loop_after_save)
qed

lemma loop_save_dir:
  "dir (loop_save1 now c s) = dir s"
  "dir (loop_save2 now c s) = dir s"
  "dir (loop_save3 now c s) = dir s"
  by (simp_all add: loop_save1_upd loop_save2_upd loop_save3_upd Let_def)

lemma loop_save_runs:
  "runs_of m (issued s (loop_save1 now c s)) = []"
  "runs_of m (issued s (loop_save2 now c s)) = []"
  "runs_of m (issued s (loop_save3 now c s)) = []"
  by (simp_all add: loop_save1_upd loop_save2_upd loop_save3_upd Let_def issued_def)

lemma loop_direction_dir:
  "dir (loop_direction m c T s) m' =
     (if m' = m then (case direction_cmd c T of None \<Rightarrow> dir s m | Some d \<Rightarrow> Some d)
      else dir s m')"
  by (cases "direction_cmd c T") (simp_all add: loop_direction_upd)

lemma loop_directions_dir:
  "dir (loop_directions s) (motor_of ch) =
     (case direction_cmd (cnt ch s) (steps ch s) of
        None \<Rightarrow> dir s (motor_of ch) | Some d \<Rightarrow> Some d)"
  by (cases ch) (auto simp: loop_directions_chain loop_direction_dir split: option.split)

lemma loop_runs:
  "runs_of (motor_of ch) (issued s (loop t1 t2 t3 s)) =
     (case direction_cmd (cnt ch s) (steps ch s) of None \<Rightarrow> [] | Some d \<Rightarrow> [d])"
  by (simp only: loop_issued runs_of_append after_save.simps loop_save_runs
      loop_directions_runs append_Nil2)

lemma loop_dir:
  "dir (loop t1 t2 t3 s) (motor_of ch) =
     (case direction_cmd (cnt ch s) (steps ch s) of
        None \<Rightarrow> dir s (motor_of ch) | Some d \<Rightarrow> Some d)"
  by (simp only: loop_after_save after_save.simps before_save.simps loop_save_dir
      loop_directions_dir)

subsection \<open>Flushes\<close>

text \<open>
  What the persistence statement of a channel puts, and what it leaves in \<open>lastSaved\<close>
  and in the EEPROM.
\<close>

lemma flushes_eq:
  "flushes ch t1 t2 t3 s =
     (if eligible ch (clock ch t1 t2 t3) s then [eeprom (after_save ch t1 t2 t3 s)] else [])"
  by (cases ch) (simp_all add: flushes_def eligible_def issued_def loop_upds)

lemma loop_lastSaved:
  "lastSaved ch (loop t1 t2 t3 s) =
     (if eligible ch (clock ch t1 t2 t3) s then cnt ch s else lastSaved ch s)"
  by (cases ch) (simp_all add: eligible_def loop_upds)

lemma flush_record:
  "eligible ch (clock ch t1 t2 t3) s \<Longrightarrow>
   eeprom (after_save ch t1 t2 t3 s) =
     \<lparr>p1 = lastSaved1 (after_save ch t1 t2 t3 s),
      p2 = lastSaved2 (after_save ch t1 t2 t3 s),
      p3 = lastSaved3 (after_save ch t1 t2 t3 s), magic = MAGIC\<rparr>"
  by (cases ch) (simp_all add: eligible_def loop_upds)

lemma after_save_lastSaved:
  "lastSaved ch' (after_save ch t1 t2 t3 s) =
     (if ch' = ch then (if eligible ch (clock ch t1 t2 t3) s then cnt ch s else lastSaved ch s)
      else lastSaved ch' (before_save ch t1 t2 t3 s))"
  by (cases ch; cases ch') (simp_all add: eligible_def loop_upds)

lemma before_save_lastSaved:
  "lastSaved ch' (before_save ch t1 t2 t3 s) =
     (if index ch' < index ch \<and> eligible ch' (clock ch' t1 t2 t3) s then cnt ch' s
      else lastSaved ch' s)"
  by (cases ch; cases ch') (simp_all add: eligible_def loop_upds)

lemma flush_record_fields:
  "eligible ch (clock ch t1 t2 t3) s \<Longrightarrow>
   count_of ch' (eeprom (after_save ch t1 t2 t3 s)) = lastSaved ch' (after_save ch t1 t2 t3 s)"
  by (cases ch') (simp_all add: flush_record)

lemma loop_directions_eeprom: "eeprom (loop_directions s) = eeprom s"
  by (simp add: loop_directions_chain loop_direction_upd)

lemma after_save_eeprom:
  "eeprom (after_save ch t1 t2 t3 s) =
     last (eeprom (before_save ch t1 t2 t3 s) # flushes ch t1 t2 t3 s)"
proof (cases "eligible ch (clock ch t1 t2 t3) s")
  case True
  then show ?thesis
    by (simp add: flushes_eq del: after_save.simps before_save.simps)
next
  case False
  then have "eeprom (after_save ch t1 t2 t3 s) = eeprom (before_save ch t1 t2 t3 s)"
    by (cases ch) (auto simp: eligible_def loop_upds)
  with False show ?thesis
    by (simp add: flushes_eq del: after_save.simps before_save.simps)
qed

lemma loop_eeprom:
  "eeprom (loop t1 t2 t3 s) = last (eeprom s # puts_of (issued s (loop t1 t2 t3 s)))"
proof -
  let ?f1 = "flushes Ch1 t1 t2 t3 s"
  let ?f2 = "flushes Ch2 t1 t2 t3 s"
  let ?f3 = "flushes Ch3 t1 t2 t3 s"
  have b1: "eeprom (before_save Ch1 t1 t2 t3 s) = eeprom s"
    by (simp add: loop_directions_eeprom)
  have b2: "before_save Ch2 t1 t2 t3 s = after_save Ch1 t1 t2 t3 s"
    by simp
  have b3: "before_save Ch3 t1 t2 t3 s = after_save Ch2 t1 t2 t3 s"
    by simp
  have "eeprom (loop t1 t2 t3 s) = last (eeprom (after_save Ch2 t1 t2 t3 s) # ?f3)"
    by (simp only: loop_after_save after_save_eeprom [of Ch3] b3)
  also have "\<dots> = last (last (eeprom (after_save Ch1 t1 t2 t3 s) # ?f2) # ?f3)"
    by (simp only: after_save_eeprom [of Ch2] b2)
  also have "\<dots> = last (last (last (eeprom s # ?f1) # ?f2) # ?f3)"
    by (simp only: after_save_eeprom [of Ch1] b1)
  also have "\<dots> = last (eeprom s # ?f1 @ ?f2 @ ?f3)"
    by (simp only: last_last append_assoc)
  finally show ?thesis
    by (simp only: loop_puts)
qed

lemma flushes_magic: "r \<in> set (flushes ch t1 t2 t3 s) \<Longrightarrow> magic r = MAGIC"
  using flush_record [of ch t1 t2 t3 s]
  by (cases "eligible ch (clock ch t1 t2 t3) s")
    (simp_all add: flushes_eq del: after_save.simps)

subsection \<open>Counts\<close>

text \<open>Only the routine of a channel changes its count.\<close>

lemma loop_cnt: "cnt ch (loop t1 t2 t3 s) = cnt ch s"
  by (cases ch) (simp_all add: loop_upds)

lemma loop_steps: "steps ch (loop t1 t2 t3 s) = steps ch s"
  by (cases ch) (simp_all add: loop_upds)

lemma isr_steps: "steps ch (isr ch' a b now s) = steps ch s"
  by (cases ch; cases ch') (simp_all add: isrEnc1_def isrEnc2_def isrEnc3_def)

lemma step_steps: "steps ch (step s e) = steps ch s"
  by (cases e) (simp_all add: isr_steps loop_steps)

lemma exec_steps: "steps ch (exec evs s) = steps ch s"
  by (induction evs rule: rev_induct) (simp_all add: exec_def step_steps)

lemma isr_cnt: "cnt ch (isr ch' a b now s) = cnt ch s + word_of_int (delta ch (Edge ch' a b now))"
  by (cases ch; cases ch') (simp_all add: isrEnc1_def isrEnc2_def isrEnc3_def)

lemma isr_cnt_same: "cnt ch (isr ch a b now s) = cnt ch s + (if a = b then 1 else - 1)"
  by (cases ch) (simp_all add: isrEnc1_def isrEnc2_def isrEnc3_def)

lemma isr_lastChange: "lastChange ch (isr ch a b now s) = now"
  by (cases ch) (simp_all add: isrEnc1_def isrEnc2_def isrEnc3_def)

lemma step_cnt: "cnt ch (step s e) = cnt ch s + word_of_int (delta ch e)"
proof (cases e)
  case (Edge ch' a b now)
  then show ?thesis by (simp add: isr_cnt del: delta.simps)
next
  case (Iteration t1 t2 t3)
  then show ?thesis by (simp add: loop_cnt)
qed

lemma exec_snoc: "exec (evs @ [e]) s = step (exec evs s) e"
  by (simp add: exec_def)

lemma exec_single: "exec [e] s = step s e"
  by (simp add: exec_def)

lemma exec_cnt: "cnt ch (exec evs s) = cnt ch s + word_of_int (sum_list (map (delta ch) evs))"
proof (induction evs rule: rev_induct)
  case Nil
  show ?case by (simp add: exec_def)
next
  case (snoc e evs)
  show ?case by (simp add: exec_snoc step_cnt snoc.IH)
qed

lemma sint_in_range:
  fixes w :: "32 word"
  assumes "- (2 ^ 31) \<le> sint w + k" "sint w + k < 2 ^ 31"
  shows "sint (w + word_of_int k) = sint w + k"
proof -
  have "w + word_of_int k = word_of_int (sint w + k)"
    by simp
  then have "sint (w + word_of_int k) = signed_take_bit 31 (sint w + k)"
    by (simp only: sint_sbintrunc') simp
  also have "\<dots> = sint w + k"
    using assms by (simp add: signed_take_bit_int_eq_self)
  finally show ?thesis .
qed

subsection \<open>Startup\<close>

text \<open>The two paths through \<open>setup\<close>, each as one update of the state.\<close>

lemma setup_valid:
  assumes "magic (eeprom s) = MAGIC"
  shows "setup_ino u s =
    s\<lparr>cnt1 := p1 (eeprom s), cnt2 := p2 (eeprom s), cnt3 := p3 (eeprom s),
      lastSaved1 := p1 (eeprom s), lastSaved2 := p2 (eeprom s), lastSaved3 := p3 (eeprom s),
      steps1 := steps_of u distance1 (stepsPerMM_of u hall_feedback_resolution winch_diameter),
      steps2 := steps_of u distance2 (stepsPerMM_of u hall_feedback_resolution winch_diameter),
      steps3 := steps_of u distance3 (stepsPerMM_of u hall_feedback_resolution winch_diameter),
      speed := (speed s)(M1 := Some 30, M2 := Some 40, M3 := Some 40),
      dir := (dir s)(M1 := Some FORWARD, M2 := Some FORWARD, M3 := Some FORWARD),
      trace := trace s @ startup_cmds\<rparr>"
  using assms
  by (simp add: setup_ino_def loadEEPROM_def Let_def run_def setSpeed_def startup_cmds_def
      motorspeed1_def motorspeed2_def motorspeed3_def)

lemma setup_invalid:
  assumes "magic (eeprom s) \<noteq> MAGIC"
  shows "setup_ino u s =
    s\<lparr>cnt1 := 0, cnt2 := 0, cnt3 := 0,
      lastSaved1 := 0, lastSaved2 := 0, lastSaved3 := 0,
      steps1 := steps_of u distance1 (stepsPerMM_of u hall_feedback_resolution winch_diameter),
      steps2 := steps_of u distance2 (stepsPerMM_of u hall_feedback_resolution winch_diameter),
      steps3 := steps_of u distance3 (stepsPerMM_of u hall_feedback_resolution winch_diameter),
      eeprom := \<lparr>p1 = 0, p2 = 0, p3 = 0, magic = MAGIC\<rparr>,
      speed := (speed s)(M1 := Some 30, M2 := Some 40, M3 := Some 40),
      dir := (dir s)(M1 := Some FORWARD, M2 := Some FORWARD, M3 := Some FORWARD),
      trace := trace s @ Put \<lparr>p1 = 0, p2 = 0, p3 = 0, magic = MAGIC\<rparr> # startup_cmds\<rparr>"
  using assms
  by (simp add: setup_ino_def loadEEPROM_def saveEEPROM_def Let_def run_def setSpeed_def
      startup_cmds_def motorspeed1_def motorspeed2_def motorspeed3_def)

lemma setup_issued:
  "issued s (setup_ino u s) =
     (if magic (eeprom s) = MAGIC then [] else [Put \<lparr>p1 = 0, p2 = 0, p3 = 0, magic = MAGIC\<rparr>])
     @ startup_cmds"
  by (cases "magic (eeprom s) = MAGIC") (simp_all add: setup_valid setup_invalid issued_def)

lemma setup_dir: "dir (setup_ino u s) m = Some FORWARD"
  by (cases "magic (eeprom s) = MAGIC"; cases m) (simp_all add: setup_valid setup_invalid)

lemma setup_speed:
  "speed (setup_ino u s) m = Some (case m of M1 \<Rightarrow> 30 | M2 \<Rightarrow> 40 | M3 \<Rightarrow> 40)"
  by (cases "magic (eeprom s) = MAGIC"; cases m) (simp_all add: setup_valid setup_invalid)

lemma setup_eeprom_valid: "magic (eeprom (setup_ino u s)) = MAGIC"
  by (cases "magic (eeprom s) = MAGIC") (simp_all add: setup_valid setup_invalid)

lemma setup_steps:
  "steps1 (setup_ino u s) = steps_of u 25 (stepsPerMM_of u 525 7)"
  "steps2 (setup_ino u s) = steps_of u 35 (stepsPerMM_of u 525 7)"
  "steps3 (setup_ino u s) = steps_of u 35 (stepsPerMM_of u 525 7)"
  by (cases "magic (eeprom s) = MAGIC";
      simp add: setup_valid setup_invalid distance1_def distance2_def distance3_def
        hall_feedback_resolution_def winch_diameter_def)+

lemma boot_fields:
  "cnt1 (boot p) = 0" "cnt2 (boot p) = 0" "cnt3 (boot p) = 0"
  "lastChange1 (boot p) = 0" "lastChange2 (boot p) = 0" "lastChange3 (boot p) = 0"
  "lastSaved1 (boot p) = 0" "lastSaved2 (boot p) = 0" "lastSaved3 (boot p) = 0"
  "eeprom (boot p) = p" "trace (boot p) = []"
  by (simp_all add: boot_def)

lemma setup_erased:
  "setup_ino u (boot erased) =
    (boot erased)\<lparr>cnt1 := 0, cnt2 := 0, cnt3 := 0,
      lastSaved1 := 0, lastSaved2 := 0, lastSaved3 := 0,
      steps1 := steps_of u distance1 (stepsPerMM_of u hall_feedback_resolution winch_diameter),
      steps2 := steps_of u distance2 (stepsPerMM_of u hall_feedback_resolution winch_diameter),
      steps3 := steps_of u distance3 (stepsPerMM_of u hall_feedback_resolution winch_diameter),
      eeprom := \<lparr>p1 = 0, p2 = 0, p3 = 0, magic = MAGIC\<rparr>,
      speed := (speed (boot erased))(M1 := Some 30, M2 := Some 40, M3 := Some 40),
      dir := (dir (boot erased))(M1 := Some FORWARD, M2 := Some FORWARD, M3 := Some FORWARD),
      trace := trace (boot erased) @ Put \<lparr>p1 = 0, p2 = 0, p3 = 0, magic = MAGIC\<rparr> # startup_cmds\<rparr>"
  by (rule setup_invalid) (simp add: boot_def erased_def MAGIC_def)

subsection \<open>Runs\<close>

text \<open>
  Along any sequence of events the trace only grows, every record put is valid, and the
  EEPROM holds the last record put.
\<close>

lemma isr_trace: "trace (isr ch a b now s) = trace s"
  by (cases ch) (simp_all add: isrEnc1_def isrEnc2_def isrEnc3_def)

lemma isr_eeprom: "eeprom (isr ch a b now s) = eeprom s"
  by (cases ch) (simp_all add: isrEnc1_def isrEnc2_def isrEnc3_def)

lemma step_trace: "trace (step s e) = trace s @ issued s (step s e)"
proof (cases e)
  case (Edge ch a b now)
  then show ?thesis by (simp add: isr_trace issued_def)
next
  case (Iteration t1 t2 t3)
  then show ?thesis by (simp only: step.simps) (rule loop_trace)
qed

lemma step_puts_magic: "r \<in> set (puts_of (issued s (step s e))) \<Longrightarrow> magic r = MAGIC"
  by (cases e) (auto simp: isr_trace issued_def [of s "isr _ _ _ _ s"] loop_puts dest: flushes_magic)

lemma step_eeprom: "eeprom (step s e) = last (eeprom s # puts_of (issued s (step s e)))"
  by (cases e) (simp_all add: isr_trace isr_eeprom issued_def [of s "isr _ _ _ _ s"] loop_eeprom)

lemma exec_invariant:
  "trace (exec evs s) = trace s @ issued s (exec evs s)
   \<and> (\<forall>r \<in> set (puts_of (issued s (exec evs s))). magic r = MAGIC)
   \<and> eeprom (exec evs s) = last (eeprom s # puts_of (issued s (exec evs s)))"
proof (induction evs rule: rev_induct)
  case Nil
  show ?case by (simp add: exec_def issued_def)
next
  case (snoc e evs)
  let ?m = "exec evs s"
  have i: "issued s (step ?m e) = issued s ?m @ issued ?m (step ?m e)"
    and t: "trace (step ?m e) = trace s @ issued s (step ?m e)"
    using issued_trans [of ?m s "step ?m e"] snoc.IH step_trace [of ?m e] by simp_all
  have "eeprom (step ?m e) = last (eeprom s # puts_of (issued s (step ?m e)))"
    using snoc.IH by (simp only: step_eeprom [of ?m e] i puts_of_append last_last)
  moreover have "\<forall>r \<in> set (puts_of (issued s (step ?m e))). magic r = MAGIC"
    using snoc.IH step_puts_magic [of _ ?m e] by (auto simp: i puts_of_append)
  ultimately show ?case
    using t by (simp add: exec_snoc)
qed

subsection \<open>The example runs\<close>

text \<open>The globals that the example runs reach.\<close>

lemma idle_exactly_fields:
  "cnt1 idle_exactly = 1" "lastSaved1 idle_exactly = 0" "lastChange1 idle_exactly = 1000"
  "cnt2 idle_exactly = 0" "lastSaved2 idle_exactly = 0"
  "cnt3 idle_exactly = 0" "lastSaved3 idle_exactly = 0"
  by (simp_all add: idle_exactly_def exec_def setup_erased isrEnc1_def boot_fields)

lemma neighbour_moving_fields:
  "cnt1 neighbour_moving = 1" "lastSaved1 neighbour_moving = 0" "lastChange1 neighbour_moving = 100"
  "cnt2 neighbour_moving = 2" "lastSaved2 neighbour_moving = 0" "lastChange2 neighbour_moving = 5999"
  "cnt3 neighbour_moving = 0" "lastSaved3 neighbour_moving = 0"
  by (simp_all add: neighbour_moving_def exec_def setup_erased isrEnc1_def isrEnc2_def boot_fields)

lemma neighbour_moving_eligible:
  "eligible Ch1 6000 neighbour_moving" "\<not> eligible Ch2 6000 neighbour_moving"
  "\<not> eligible Ch3 6000 neighbour_moving"
  by (simp_all add: eligible_def neighbour_moving_fields T_IDLE_def)

lemma neighbour_moving_flush:
  "eeprom (after_save Ch1 6000 6000 6000 neighbour_moving) = \<lparr>p1 = 1, p2 = 0, p3 = 0, magic = 0xBEEF\<rparr>"
  by (simp add: loop_upds neighbour_moving_fields T_IDLE_def MAGIC_def)

lemma neighbour_moving_puts:
  "puts_of (issued neighbour_moving (loop 6000 6000 6000 neighbour_moving)) =
     [\<lparr>p1 = 1, p2 = 0, p3 = 0, magic = 0xBEEF\<rparr>]"
  by (simp add: loop_puts flushes_eq neighbour_moving_eligible neighbour_moving_flush
      del: after_save.simps)

subsection \<open>Bounds for the calibration\<close>

text \<open>
  \<open>\<pi>\<close> lies between 3.141 and 3.142, by the expansion of the cosine to the tenth
  power at 1.5705 and at 1.571. A rounding that satisfies \<open>rounds\<close> moves a value
  between 1 and 1000 by at most one millionth of it, which bounds every intermediate
  result of the calibration.
\<close>

lemma cos_poly_bound:
  fixes x :: real
  assumes "0 < x"
  shows "\<bar>cos x - (\<Sum>m<10. cos_coeff m * x ^ m)\<bar> \<le> x ^ 10 / fact 10"
proof -
  from Maclaurin_cos_expansion2 [of x 10] assms obtain t where
    c: "cos x = (\<Sum>m<10. cos_coeff m * x ^ m) + (cos (t + 1/2 * real 10 * pi) / fact 10) * x ^ 10"
    by auto
  have "\<bar>(cos (t + 1/2 * real 10 * pi) / fact 10) * x ^ 10\<bar>
          = \<bar>cos (t + 1/2 * real 10 * pi)\<bar> * (x ^ 10 / fact 10)"
    using assms by (simp add: abs_mult)
  also have "\<dots> \<le> 1 * (x ^ 10 / fact 10)"
    using assms by (intro mult_right_mono abs_cos_le_one) simp
  finally show ?thesis
    using c by simp
qed

lemma cos_poly_eval:
  fixes x :: real
  shows "(\<Sum>m<10. cos_coeff m * x ^ m) =
     1 - x^2 / 2 + x^4 / 24 - x^6 / 720 + x^8 / 40320"
proof -
  have s: "(\<Sum>m<10. f m) = f 0 + f 1 + f 2 + f 3 + f 4 + f 5 + f 6 + f 7 + f 8 + f 9"
    for f :: "nat \<Rightarrow> real"
    by (simp add: eval_nat_numeral)
  have c: "cos_coeff 0 = 1" "cos_coeff 1 = 0" "cos_coeff 2 = - 1 / 2" "cos_coeff 3 = 0"
    "cos_coeff 4 = 1 / 24" "cos_coeff 5 = 0" "cos_coeff 6 = - 1 / 720" "cos_coeff 7 = 0"
    "cos_coeff 8 = 1 / 40320" "cos_coeff 9 = 0" "cos_coeff (Suc 0) = 0"
    by (simp_all add: cos_coeff_def fact_numeral)
  show ?thesis
    by (simp add: s c)
qed

lemma cos_pos_imp_less_pi_half:
  fixes x :: real
  assumes "0 \<le> x" "x \<le> 2" "0 < cos x"
  shows "x < pi / 2"
proof (rule ccontr)
  assume "\<not> x < pi / 2"
  then have "pi / 2 \<le> x" by simp
  moreover have "x \<le> pi" using assms(2) pi_ge_two by linarith
  ultimately have "cos x \<le> cos (pi / 2)"
    by (intro cos_monotone_0_pi_le) simp_all
  with assms(3) show False by simp
qed

lemma cos_neg_imp_greater_pi_half:
  fixes x :: real
  assumes "0 \<le> x" "cos x < 0"
  shows "pi / 2 < x"
proof (rule ccontr)
  assume "\<not> pi / 2 < x"
  then have "x \<le> pi / 2" by simp
  then have "0 \<le> cos x"
    using assms(1) by (intro cos_ge_zero) (auto intro: order_trans [OF _ assms(1)])
  with assms(2) show False by simp
qed

lemma pi_lower: "3.141 < pi"
proof -
  let ?x = "3141 / 2000 :: real"
  have "\<bar>cos ?x - (\<Sum>m<10. cos_coeff m * ?x ^ m)\<bar> \<le> ?x ^ 10 / fact 10"
    by (rule cos_poly_bound) simp
  then have "(\<Sum>m<10. cos_coeff m * ?x ^ m) - ?x ^ 10 / fact 10 \<le> cos ?x"
    by linarith
  moreover have "0 < (\<Sum>m<10. cos_coeff m * ?x ^ m) - ?x ^ 10 / fact 10"
    by (simp only: cos_poly_eval) (simp add: fact_numeral power_divide)
  ultimately have "0 < cos ?x" by linarith
  then have "?x < pi / 2"
    by (intro cos_pos_imp_less_pi_half) simp_all
  then show ?thesis by simp
qed

lemma pi_upper: "pi < 3.142"
proof -
  let ?x = "1571 / 1000 :: real"
  have "\<bar>cos ?x - (\<Sum>m<10. cos_coeff m * ?x ^ m)\<bar> \<le> ?x ^ 10 / fact 10"
    by (rule cos_poly_bound) simp
  then have "cos ?x \<le> (\<Sum>m<10. cos_coeff m * ?x ^ m) + ?x ^ 10 / fact 10"
    by linarith
  moreover have "(\<Sum>m<10. cos_coeff m * ?x ^ m) + ?x ^ 10 / fact 10 < 0"
    by (simp only: cos_poly_eval) (simp add: fact_numeral power_divide)
  ultimately have "cos ?x < 0" by linarith
  then have "pi / 2 < ?x"
    by (intro cos_neg_imp_greater_pi_half) simp_all
  then show ?thesis by simp
qed

lemma rounds_interval:
  assumes "rounds f" "1 \<le> lo" "lo \<le> x" "x \<le> hi" "hi \<le> 1000"
  shows "lo * (999999 / 1000000) \<le> f x \<and> f x \<le> hi * (1000001 / 1000000)"
proof -
  have x: "1 \<le> x" "x \<le> 1000" "\<bar>x\<bar> = x"
    using assms by linarith+
  have "(1 :: real) / 2 ^ 126 \<le> 1"
    by simp
  then have lo': "1 / 2 ^ 126 \<le> \<bar>x\<bar>"
    using x by linarith
  have "(1000 :: real) \<le> 2 ^ 127"
    by simp
  then have hi': "\<bar>x\<bar> \<le> 2 ^ 127"
    using x by linarith
  from assms(1) lo' hi' have "\<bar>f x - x\<bar> \<le> \<bar>x\<bar> / 2 ^ 23"
    unfolding rounds_def by blast
  moreover have "\<bar>x\<bar> / 2 ^ 23 \<le> x / 1000000"
    using x by simp
  ultimately have d: "\<bar>f x - x\<bar> \<le> x / 1000000"
    by linarith
  show ?thesis
    using d assms(3,4) by linarith
qed

lemma stepsPerMM_bounds:
  assumes "ieee u"
  shows "23.8697 \<le> stepsPerMM_of u 525 7 \<and> stepsPerMM_of u 525 7 \<le> 23.8782"
proof -
  from assms have rf: "rounds (to_float u)" and rd: "rounds (to_double u)"
    and p: "3.141 \<le> PI u" "PI u \<le> 3.142"
    by (simp_all add: ieee_def)
  define A where "A = to_double u (2 * PI u)"
  define B where "B = to_double u (7 / 2)"
  define C where "C = to_double u (A * B)"
  define D where "D = to_double u (525 / C)"
  define E where "E = to_float u D"
  have "6.282 * (999999 / 1000000) \<le> A \<and> A \<le> 6.284 * (1000001 / 1000000)"
    unfolding A_def using p by (intro rounds_interval [OF rd]) simp_all
  then have A: "6.28199 \<le> A" "A \<le> 6.28401"
    by simp_all
  have "3.5 * (999999 / 1000000) \<le> B \<and> B \<le> 3.5 * (1000001 / 1000000)"
    unfolding B_def by (intro rounds_interval [OF rd]) simp_all
  then have B: "3.49999 \<le> B" "B \<le> 3.50001"
    by simp_all
  have "6.28199 * 3.49999 \<le> A * B"
    using A B by (intro mult_mono) simp_all
  moreover have "A * B \<le> 6.28401 * 3.50001"
    using A B by (intro mult_mono) simp_all
  ultimately have AB: "21.9869 \<le> A * B" "A * B \<le> 21.9941"
    by simp_all
  have "21.9869 * (999999 / 1000000) \<le> C \<and> C \<le> 21.9941 * (1000001 / 1000000)"
    unfolding C_def using AB by (intro rounds_interval [OF rd]) simp_all
  then have C: "21.9868 \<le> C" "C \<le> 21.9942"
    by simp_all
  have "525 / 21.9942 \<le> 525 / C"
    using C by (intro divide_left_mono) simp_all
  moreover have "525 / C \<le> 525 / 21.9868"
    using C by (intro divide_left_mono) simp_all
  ultimately have Q: "23.8699 \<le> 525 / C" "525 / C \<le> 23.878"
    by simp_all
  have "23.8699 * (999999 / 1000000) \<le> D \<and> D \<le> 23.878 * (1000001 / 1000000)"
    unfolding D_def using Q by (intro rounds_interval [OF rd]) simp_all
  then have D: "23.8698 \<le> D" "D \<le> 23.8781"
    by simp_all
  have "23.8698 * (999999 / 1000000) \<le> E \<and> E \<le> 23.8781 * (1000001 / 1000000)"
    unfolding E_def using D by (intro rounds_interval [OF rf]) simp_all
  then have E: "23.8697 \<le> E" "E \<le> 23.8782"
    by simp_all
  have "stepsPerMM_of u 525 7 = E"
    by (simp add: stepsPerMM_of_def E_def D_def C_def B_def A_def)
  with E show ?thesis
    by simp
qed

lemma truncate_toward_zero_eq:
  assumes "of_int k \<le> x" "x < of_int k + 1" "0 \<le> k"
  shows "truncate_toward_zero x = k"
proof -
  have "0 \<le> x"
    using assms by linarith
  moreover have "\<lfloor>x\<rfloor> = k"
    using assms by linarith
  ultimately show ?thesis
    by (simp add: truncate_toward_zero_def)
qed

lemma steps_of_25:
  assumes "ieee u"
  shows "steps_of u 25 (stepsPerMM_of u 525 7) = 596"
proof -
  let ?E = "stepsPerMM_of u 525 7"
  from assms have rf: "rounds (to_float u)"
    by (simp add: ieee_def)
  from stepsPerMM_bounds [OF assms] have "25 * 23.8697 \<le> 25 * ?E" "25 * ?E \<le> 25 * 23.8782"
    by simp_all
  then have P: "596.7425 \<le> 25 * ?E" "25 * ?E \<le> 596.955"
    by simp_all
  have "596.7425 * (999999 / 1000000) \<le> to_float u (25 * ?E)
        \<and> to_float u (25 * ?E) \<le> 596.955 * (1000001 / 1000000)"
    using P by (intro rounds_interval [OF rf]) simp_all
  then have "of_int 596 \<le> to_float u (25 * ?E)" "to_float u (25 * ?E) < of_int 596 + 1"
    by simp_all
  then have "truncate_toward_zero (to_float u (25 * ?E)) = 596"
    by (rule truncate_toward_zero_eq) simp
  then show ?thesis
    by (simp add: steps_of_def float_to_int_def)
qed

lemma steps_of_35:
  assumes "ieee u"
  shows "steps_of u 35 (stepsPerMM_of u 525 7) = 835"
proof -
  let ?E = "stepsPerMM_of u 525 7"
  from assms have rf: "rounds (to_float u)"
    by (simp add: ieee_def)
  from stepsPerMM_bounds [OF assms] have "35 * 23.8697 \<le> 35 * ?E" "35 * ?E \<le> 35 * 23.8782"
    by simp_all
  then have P: "835.4395 \<le> 35 * ?E" "35 * ?E \<le> 835.737"
    by simp_all
  have "835.4395 * (999999 / 1000000) \<le> to_float u (35 * ?E)
        \<and> to_float u (35 * ?E) \<le> 835.737 * (1000001 / 1000000)"
    using P by (intro rounds_interval [OF rf]) simp_all
  then have "of_int 835 \<le> to_float u (35 * ?E)" "to_float u (35 * ?E) < of_int 835 + 1"
    by simp_all
  then have "truncate_toward_zero (to_float u (35 * ?E)) = 835"
    by (rule truncate_toward_zero_eq) simp
  then show ?thesis
    by (simp add: steps_of_def float_to_int_def)
qed

lemma rounds_id: "rounds id"
  by (simp add: rounds_def)

lemma ieee_exact: "ieee exact_fpu"
  using pi_lower pi_upper by (simp add: ieee_def exact_fpu_def rounds_id)

lemma ieee_arduino: "ieee arduino_fpu"
  by (simp add: ieee_def arduino_fpu_def rounds_id)

lemma round_exact: "round (25 * 525 / (pi * 7.0)) = 597"
proof -
  have "(596.5 :: real) * (pi * 7) \<le> 25 * 525"
    using pi_upper by simp
  then have "596.5 \<le> 25 * 525 / (pi * 7)"
    by (simp add: field_simps)
  moreover have "25 * 525 < (597.5 :: real) * (pi * 7)"
    using pi_lower by simp
  then have "25 * 525 / (pi * 7) < 597.5"
    by (simp add: field_simps)
  ultimately show ?thesis
    unfolding round_def by (simp add: floor_eq_iff)
qed

lemma exact_steps:
  "steps_of exact_fpu d (stepsPerMM_of exact_fpu res diam) =
     word_of_int (truncate_toward_zero (d * (res / (pi * diam))))"
  by (simp add: steps_of_def stepsPerMM_of_def exact_fpu_def float_to_int_def)

lemma setup_steps_positive:
  assumes "ieee u"
  shows "0 < sint (steps ch (setup_ino u s))"
  by (cases ch) (simp_all add: setup_steps steps_of_25 [OF assms] steps_of_35 [OF assms])

lemma below_zero_fields: "cnt1 below_zero = - 1" "steps1 below_zero = 596"
  using steps_of_25 [OF ieee_exact]
  by (simp_all add: below_zero_def exec_single isrEnc1_def setup_steps)
    (simp add: setup_erased boot_fields)

section \<open>Claims\<close>

subsection \<open>Direction law\<close>

text \<open>
  C1. In one iteration of \<open>loop\<close>, on the snapshot count \<open>c\<close> of a channel and its
  target \<open>T\<close>: the controller issues exactly one \<open>run(BACKWARD)\<close> to the motor of the
  channel if \<open>c \<ge> T\<close>; otherwise exactly one \<open>run(FORWARD)\<close> if \<open>c < 0\<close>; otherwise
  it issues no run command and the direction last commanded stays in effect, so that
  the direction changes only at the two bounds. For a target \<open>T \<ge> 0\<close> the two conditions
  exclude each other: the command is backward exactly when \<open>c \<ge> T\<close>, forward exactly
  when \<open>c < 0\<close>, and absent exactly in between. After \<open>setup\<close> and any sequence of
  events the target of every channel is positive, under every arithmetic that satisfies
  \<open>ieee\<close>.
\<close>

theorem loop_direction_law:
  "runs_of (motor_of ch) (issued s (loop t1 t2 t3 s)) =
     (if sint (steps ch s) \<le> sint (cnt ch s) then [BACKWARD]
      else if sint (cnt ch s) < 0 then [FORWARD]
      else [])
   \<and> dir (loop t1 t2 t3 s) (motor_of ch) =
     (if sint (steps ch s) \<le> sint (cnt ch s) then Some BACKWARD
      else if sint (cnt ch s) < 0 then Some FORWARD
      else dir s (motor_of ch))
   \<and> (0 \<le> sint (steps ch s) \<longrightarrow>
        (runs_of (motor_of ch) (issued s (loop t1 t2 t3 s)) = [BACKWARD]
           \<longleftrightarrow> sint (steps ch s) \<le> sint (cnt ch s))
        \<and> (runs_of (motor_of ch) (issued s (loop t1 t2 t3 s)) = [FORWARD]
           \<longleftrightarrow> sint (cnt ch s) < 0)
        \<and> (runs_of (motor_of ch) (issued s (loop t1 t2 t3 s)) = []
           \<longleftrightarrow> 0 \<le> sint (cnt ch s) \<and> sint (cnt ch s) < sint (steps ch s)))
   \<and> (ieee u \<longrightarrow> 0 < sint (steps ch (exec evs (setup_ino u s0))))"
proof -
  have "ieee u \<longrightarrow> 0 < sint (steps ch (exec evs (setup_ino u s0)))"
    by (simp add: exec_steps setup_steps_positive)
  then show ?thesis
    by (auto simp: loop_runs loop_dir direction_cmd_def)
qed

text \<open>
  In \<open>below_zero\<close>, a run from power-up, the target of channel 1 is 596 and its count
  is \<open>-1\<close>: the iteration commands forward.
\<close>

theorem loop_direction_law_witness:
  "ieee exact_fpu
   \<and> 0 \<le> sint (steps Ch1 below_zero)
   \<and> sint (cnt Ch1 below_zero) < 0
   \<and> runs_of (motor_of Ch1) (issued below_zero (loop 0 0 0 below_zero)) = [FORWARD]
   \<and> 0 < sint (steps Ch1 (exec [Edge Ch1 True False 100] (setup_ino exact_fpu (boot erased))))"
proof -
  have h: "0 \<le> sint (steps Ch1 below_zero)" "sint (cnt Ch1 below_zero) < 0"
    by (simp_all add: below_zero_fields)
  from loop_direction_law [where ch = Ch1 and s = below_zero and ?t1.0 = 0 and ?t2.0 = 0
      and ?t3.0 = 0 and u = exact_fpu and evs = "[Edge Ch1 True False 100]"
      and ?s0.0 = "boot erased"] h ieee_exact
  show ?thesis
    by simp
qed

subsection \<open>Quadrature decoding\<close>

text \<open>
  C2. The routine of a channel adds 1 to the count of that channel when the two levels
  are equal and subtracts 1 when they differ, in the arithmetic of \<open>long\<close>, and stores
  the time in \<open>lastChange\<close> of that channel. Over any sequence of events (edges of any
  channel and iterations of \<open>loop\<close>) the count of a channel is its initial value plus
  the sum of the contributions of its own edges, again in the arithmetic of
  \<open>long\<close>; where that sum stays within the range of \<open>long\<close>, it is the integer sum.
\<close>

theorem quadrature_sign_law:
  "cnt ch (isr ch a b now s) = cnt ch s + (if a = b then 1 else - 1)
   \<and> lastChange ch (isr ch a b now s) = now
   \<and> cnt ch (exec evs s) = cnt ch s + word_of_int (sum_list (map (delta ch) evs))
   \<and> (- (2 ^ 31) \<le> sint (cnt ch s) + sum_list (map (delta ch) evs)
        \<and> sint (cnt ch s) + sum_list (map (delta ch) evs) < 2 ^ 31 \<longrightarrow>
      sint (cnt ch (exec evs s)) = sint (cnt ch s) + sum_list (map (delta ch) evs))"
  by (simp add: isr_lastChange isr_cnt_same exec_cnt sint_in_range)

text \<open>
  On \<open>short_run\<close> from power-up, channel 1 ends at \<open>0 + 1 - 1 + 1 = 1\<close>.
\<close>

theorem quadrature_sign_law_witness:
  "- (2 ^ 31) \<le> sint (cnt Ch1 (boot erased)) + sum_list (map (delta Ch1) short_run)
   \<and> sint (cnt Ch1 (boot erased)) + sum_list (map (delta Ch1) short_run) < 2 ^ 31
   \<and> sum_list (map (delta Ch1) short_run) = 1
   \<and> sint (cnt Ch1 (exec short_run (boot erased))) = 1"
proof -
  have d: "sum_list (map (delta Ch1) short_run) = 1"
    by (simp add: short_run_def)
  have c: "cnt1 (boot erased) = 0"
    by (simp add: boot_def)
  from quadrature_sign_law [of Ch1 True True 0 "boot erased" short_run] show ?thesis
    by (simp add: d c)
qed

subsection \<open>Contents of a flush\<close>

text \<open>
  In \<open>neighbour_moving\<close> the count of channel 2 is 2 and channel 2 is not idle. The
  flush of channel 1 at 6000 ms, the only one of that iteration, writes 0 for channel 2,
  the value last saved, not 2.
\<close>

theorem stale_neighbour_counterexample:
  "flushes Ch1 6000 6000 6000 neighbour_moving = [\<lparr>p1 = 1, p2 = 0, p3 = 0, magic = 0xBEEF\<rparr>]
   \<and> eeprom (loop 6000 6000 6000 neighbour_moving) = \<lparr>p1 = 1, p2 = 0, p3 = 0, magic = 0xBEEF\<rparr>
   \<and> cnt Ch2 neighbour_moving = 2
   \<and> count_of Ch2 (eeprom (loop 6000 6000 6000 neighbour_moving)) \<noteq> cnt Ch2 neighbour_moving"
proof -
  have f: "flushes Ch1 6000 6000 6000 neighbour_moving =
      [\<lparr>p1 = 1, p2 = 0, p3 = 0, magic = 0xBEEF\<rparr>]"
    by (simp add: flushes_eq neighbour_moving_eligible neighbour_moving_flush
        del: after_save.simps)
  have e: "eeprom (loop 6000 6000 6000 neighbour_moving) =
      \<lparr>p1 = 1, p2 = 0, p3 = 0, magic = 0xBEEF\<rparr>"
    by (simp add: loop_eeprom neighbour_moving_puts)
  show ?thesis
    by (simp add: f e neighbour_moving_fields)
qed

text \<open>
  C3, as amended. When the persistence statement of a channel fires in an iteration, it
  puts exactly one record. The record carries the marker \<open>0xBEEF\<close>, the snapshot
  count of the firing channel, and, for each other channel, the \<open>lastSaved\<close> value
  that channel has at that moment: its snapshot count if its own statement has fired
  earlier in the same iteration, and otherwise the value it had at the start of the
  iteration, whatever its current count. The \<open>lastSaved\<close> value of the firing channel
  becomes its snapshot count.
\<close>

theorem flush_record_contents:
  assumes "flushes ch t1 t2 t3 s \<noteq> []"
  shows "(let r = eeprom (after_save ch t1 t2 t3 s) in
           flushes ch t1 t2 t3 s = [r]
           \<and> magic r = 0xBEEF
           \<and> count_of ch r = cnt ch s
           \<and> lastSaved ch (after_save ch t1 t2 t3 s) = cnt ch s
           \<and> (ch' \<noteq> ch \<longrightarrow>
                count_of ch' r = lastSaved ch' (before_save ch t1 t2 t3 s)
                \<and> count_of ch' r =
                    (if index ch' < index ch \<and> flushes ch' t1 t2 t3 s \<noteq> []
                     then cnt ch' s else lastSaved ch' s)))"
proof -
  let ?r = "eeprom (after_save ch t1 t2 t3 s)"
  have e: "eligible ch (clock ch t1 t2 t3) s"
    using assms by (simp add: flushes_eq split: if_splits)
  have "flushes ch t1 t2 t3 s = [?r]"
    using e by (simp add: flushes_eq)
  moreover have "magic ?r = 0xBEEF"
    by (simp add: flush_record [OF e] MAGIC_def)
  moreover have "count_of ch ?r = cnt ch s" "lastSaved ch (after_save ch t1 t2 t3 s) = cnt ch s"
    using e by (simp_all add: flush_record_fields after_save_lastSaved)
  moreover have "ch' \<noteq> ch \<longrightarrow>
      count_of ch' ?r = lastSaved ch' (before_save ch t1 t2 t3 s)
      \<and> count_of ch' ?r =
          (if index ch' < index ch \<and> flushes ch' t1 t2 t3 s \<noteq> []
           then cnt ch' s else lastSaved ch' s)"
    using e by (simp add: flush_record_fields after_save_lastSaved before_save_lastSaved flushes_eq)
  ultimately show ?thesis
    unfolding Let_def by blast
qed

text \<open>
  The same flush, read through the theorem: one record, with the count of channel 1
  and the \<open>lastSaved\<close> value of channel 2.
\<close>

theorem flush_record_contents_witness:
  "flushes Ch1 6000 6000 6000 neighbour_moving \<noteq> []
   \<and> Ch2 \<noteq> Ch1
   \<and> flushes Ch1 6000 6000 6000 neighbour_moving = [eeprom (after_save Ch1 6000 6000 6000 neighbour_moving)]
   \<and> count_of Ch1 (eeprom (after_save Ch1 6000 6000 6000 neighbour_moving)) = cnt Ch1 neighbour_moving
   \<and> count_of Ch2 (eeprom (after_save Ch1 6000 6000 6000 neighbour_moving)) = lastSaved Ch2 neighbour_moving"
proof -
  have f: "flushes Ch1 6000 6000 6000 neighbour_moving \<noteq> []"
    by (simp add: flushes_eq neighbour_moving_eligible del: after_save.simps)
  from flush_record_contents [OF f, of Ch2] show ?thesis
    using f by (simp add: Let_def loop_directions_def loop_direction_upd del: after_save.simps)
qed

subsection \<open>Restore\<close>

text \<open>
  C4. When the EEPROM holds a record with the marker \<open>0xBEEF\<close>, \<open>setup\<close> adopts its
  three counts as the counts of the channels, sets each \<open>lastSaved\<close> to its count,
  writes nothing and leaves the EEPROM as it is; in particular, when the record is
  \<open>(12, -7, 3)\<close>, the counts after \<open>setup\<close> are \<open>(12, -7, 3)\<close> and each \<open>lastSaved\<close>
  equals its count. When the stored marker is not \<open>0xBEEF\<close>, \<open>setup\<close> leaves all counts
  and all \<open>lastSaved\<close> values 0, and writes one record, the all-zero record with the
  marker \<open>0xBEEF\<close>, which the EEPROM then holds. In every case the EEPROM holds a valid
  record after \<open>setup\<close>.
\<close>

theorem restore_round_trip:
  "(magic (eeprom sd) = 0xBEEF \<longrightarrow>
      cnt1 (setup_ino u sd) = p1 (eeprom sd) \<and> cnt2 (setup_ino u sd) = p2 (eeprom sd)
      \<and> cnt3 (setup_ino u sd) = p3 (eeprom sd)
      \<and> lastSaved1 (setup_ino u sd) = cnt1 (setup_ino u sd)
      \<and> lastSaved2 (setup_ino u sd) = cnt2 (setup_ino u sd)
      \<and> lastSaved3 (setup_ino u sd) = cnt3 (setup_ino u sd)
      \<and> eeprom (setup_ino u sd) = eeprom sd
      \<and> puts_of (issued sd (setup_ino u sd)) = [])
   \<and> (eeprom sa = \<lparr>p1 = 12, p2 = - 7, p3 = 3, magic = 0xBEEF\<rparr> \<longrightarrow>
      sint (cnt1 (setup_ino u sa)) = 12 \<and> sint (cnt2 (setup_ino u sa)) = - 7
      \<and> sint (cnt3 (setup_ino u sa)) = 3
      \<and> lastSaved1 (setup_ino u sa) = cnt1 (setup_ino u sa)
      \<and> lastSaved2 (setup_ino u sa) = cnt2 (setup_ino u sa)
      \<and> lastSaved3 (setup_ino u sa) = cnt3 (setup_ino u sa))
   \<and> (magic (eeprom sb) \<noteq> 0xBEEF \<longrightarrow>
      cnt1 (setup_ino u sb) = 0 \<and> cnt2 (setup_ino u sb) = 0 \<and> cnt3 (setup_ino u sb) = 0
      \<and> lastSaved1 (setup_ino u sb) = 0 \<and> lastSaved2 (setup_ino u sb) = 0
      \<and> lastSaved3 (setup_ino u sb) = 0
      \<and> eeprom (setup_ino u sb) = \<lparr>p1 = 0, p2 = 0, p3 = 0, magic = 0xBEEF\<rparr>
      \<and> puts_of (issued sb (setup_ino u sb)) = [\<lparr>p1 = 0, p2 = 0, p3 = 0, magic = 0xBEEF\<rparr>])
   \<and> magic (eeprom (setup_ino u sc)) = 0xBEEF"
proof (intro conjI impI)
  assume "magic (eeprom sd) = 0xBEEF"
  then have v: "magic (eeprom sd) = MAGIC"
    by (simp add: MAGIC_def)
  show "cnt1 (setup_ino u sd) = p1 (eeprom sd)" "cnt2 (setup_ino u sd) = p2 (eeprom sd)"
    "cnt3 (setup_ino u sd) = p3 (eeprom sd)"
    "lastSaved1 (setup_ino u sd) = cnt1 (setup_ino u sd)"
    "lastSaved2 (setup_ino u sd) = cnt2 (setup_ino u sd)"
    "lastSaved3 (setup_ino u sd) = cnt3 (setup_ino u sd)"
    "eeprom (setup_ino u sd) = eeprom sd"
    by (simp_all add: setup_valid [OF v])
  show "puts_of (issued sd (setup_ino u sd)) = []"
    using v by (simp add: setup_issued startup_cmds_def)
next
  assume a: "eeprom sa = \<lparr>p1 = 12, p2 = - 7, p3 = 3, magic = 0xBEEF\<rparr>"
  then have v: "magic (eeprom sa) = MAGIC"
    by (simp add: MAGIC_def)
  show "sint (cnt1 (setup_ino u sa)) = 12" "sint (cnt2 (setup_ino u sa)) = - 7"
    "sint (cnt3 (setup_ino u sa)) = 3"
    "lastSaved1 (setup_ino u sa) = cnt1 (setup_ino u sa)"
    "lastSaved2 (setup_ino u sa) = cnt2 (setup_ino u sa)"
    "lastSaved3 (setup_ino u sa) = cnt3 (setup_ino u sa)"
    by (simp_all add: setup_valid [OF v] a)
next
  assume "magic (eeprom sb) \<noteq> 0xBEEF"
  then have v: "magic (eeprom sb) \<noteq> MAGIC"
    by (simp add: MAGIC_def)
  show "cnt1 (setup_ino u sb) = 0" "cnt2 (setup_ino u sb) = 0" "cnt3 (setup_ino u sb) = 0"
    "lastSaved1 (setup_ino u sb) = 0" "lastSaved2 (setup_ino u sb) = 0"
    "lastSaved3 (setup_ino u sb) = 0"
    "eeprom (setup_ino u sb) = \<lparr>p1 = 0, p2 = 0, p3 = 0, magic = 0xBEEF\<rparr>"
    by (simp_all add: setup_invalid [OF v] MAGIC_def)
  show "puts_of (issued sb (setup_ino u sb)) = [\<lparr>p1 = 0, p2 = 0, p3 = 0, magic = 0xBEEF\<rparr>]"
    using v by (simp add: setup_issued startup_cmds_def) (simp add: MAGIC_def)
next
  show "magic (eeprom (setup_ino u sc)) = 0xBEEF"
    using setup_eeprom_valid [of u sc] by (simp add: MAGIC_def)
qed

text \<open>
  The first state is an EEPROM that holds the valid record \<open>(5, 6, 7)\<close>, restored as
  \<open>(5, 6, 7)\<close> with nothing written; the second is an EEPROM written by
  \<open>saveEEPROM(12, -7, 3)\<close>; the third an erased EEPROM.
\<close>

theorem restore_round_trip_witness:
  "magic (eeprom stored_567) = 0xBEEF
   \<and> cnt1 (setup_ino exact_fpu stored_567) = 5
   \<and> cnt2 (setup_ino exact_fpu stored_567) = 6
   \<and> cnt3 (setup_ino exact_fpu stored_567) = 7
   \<and> lastSaved1 (setup_ino exact_fpu stored_567) = 5
   \<and> lastSaved2 (setup_ino exact_fpu stored_567) = 6
   \<and> lastSaved3 (setup_ino exact_fpu stored_567) = 7
   \<and> puts_of (issued stored_567 (setup_ino exact_fpu stored_567)) = []
   \<and> eeprom (saveEEPROM 12 (- 7) 3 (boot erased)) = \<lparr>p1 = 12, p2 = - 7, p3 = 3, magic = 0xBEEF\<rparr>
   \<and> sint (cnt1 (setup_ino exact_fpu (saveEEPROM 12 (- 7) 3 (boot erased)))) = 12
   \<and> sint (cnt2 (setup_ino exact_fpu (saveEEPROM 12 (- 7) 3 (boot erased)))) = - 7
   \<and> sint (cnt3 (setup_ino exact_fpu (saveEEPROM 12 (- 7) 3 (boot erased)))) = 3
   \<and> magic (eeprom (boot erased)) \<noteq> 0xBEEF
   \<and> cnt1 (setup_ino exact_fpu (boot erased)) = 0
   \<and> cnt2 (setup_ino exact_fpu (boot erased)) = 0
   \<and> cnt3 (setup_ino exact_fpu (boot erased)) = 0
   \<and> eeprom (setup_ino exact_fpu (boot erased)) = \<lparr>p1 = 0, p2 = 0, p3 = 0, magic = 0xBEEF\<rparr>"
proof -
  have d: "eeprom stored_567 = \<lparr>p1 = 5, p2 = 6, p3 = 7, magic = 0xBEEF\<rparr>"
    by (simp add: stored_567_def boot_fields)
  have a: "eeprom (saveEEPROM 12 (- 7) 3 (boot erased)) = \<lparr>p1 = 12, p2 = - 7, p3 = 3, magic = 0xBEEF\<rparr>"
    by (simp add: saveEEPROM_def MAGIC_def Let_def)
  have b: "magic (eeprom (boot erased)) \<noteq> 0xBEEF"
    by (simp add: boot_def erased_def)
  from restore_round_trip [where sd = stored_567 and u = exact_fpu
      and sa = "saveEEPROM 12 (- 7) 3 (boot erased)" and sb = "boot erased"] a b d
  show ?thesis
    by simp
qed

subsection \<open>Gating of a flush\<close>

text \<open>
  The claim as stated lets a flush occur once the channel has been idle for at least
  the threshold. At an idle time of 5000 ms exactly, with a count that differs from
  \<open>lastSaved\<close>, the iteration puts nothing.
\<close>

theorem at_least_threshold_counterexample:
  "6000 - lastChange Ch1 idle_exactly = 5000
   \<and> cnt Ch1 idle_exactly \<noteq> lastSaved Ch1 idle_exactly
   \<and> flushes Ch1 6000 6000 6000 idle_exactly = []
   \<and> puts_of (issued idle_exactly (loop 6000 6000 6000 idle_exactly)) = []"
  by (simp add: loop_puts flushes_eq eligible_def idle_exactly_fields T_IDLE_def)

text \<open>
  C5, as amended. In an iteration of \<open>loop\<close>, the persistence statement of a channel
  puts a record if and only if the channel has been idle for more than 5000 ms
  (\<open>now - lastChange > 5000\<close> in unsigned 32-bit arithmetic, \<open>now\<close> being the clock
  value read by that statement) and its snapshot count differs from \<open>lastSaved\<close>. It
  then puts exactly one record, and \<open>lastSaved\<close> of the channel becomes the snapshot
  count; otherwise it puts none and \<open>lastSaved\<close> is unchanged. The records put by the
  iteration are those of the three statements, in the order of the channels.
\<close>

theorem flush_gating:
  "flushes ch t1 t2 t3 s =
     (if 5000 < clock ch t1 t2 t3 - lastChange ch s \<and> cnt ch s \<noteq> lastSaved ch s
      then [eeprom (after_save ch t1 t2 t3 s)] else [])
   \<and> lastSaved ch (loop t1 t2 t3 s) =
     (if 5000 < clock ch t1 t2 t3 - lastChange ch s \<and> cnt ch s \<noteq> lastSaved ch s
      then cnt ch s else lastSaved ch s)
   \<and> puts_of (issued s (loop t1 t2 t3 s)) =
       flushes Ch1 t1 t2 t3 s @ flushes Ch2 t1 t2 t3 s @ flushes Ch3 t1 t2 t3 s"
  using flushes_eq [of ch t1 t2 t3 s] loop_lastSaved [of ch t1 t2 t3 s] loop_puts [of s t1 t2 t3]
  by (simp add: eligible_def T_IDLE_def)

text \<open>
  In \<open>neighbour_moving\<close> at 6000 ms channel 1 flushes once and channel 2, idle for
  1 ms, does not.
\<close>

theorem flush_gating_witness:
  "5000 < clock Ch1 6000 6000 6000 - lastChange Ch1 neighbour_moving
   \<and> cnt Ch1 neighbour_moving \<noteq> lastSaved Ch1 neighbour_moving
   \<and> length (flushes Ch1 6000 6000 6000 neighbour_moving) = 1
   \<and> lastSaved Ch1 (loop 6000 6000 6000 neighbour_moving) = cnt Ch1 neighbour_moving
   \<and> \<not> 5000 < clock Ch2 6000 6000 6000 - lastChange Ch2 neighbour_moving
   \<and> flushes Ch2 6000 6000 6000 neighbour_moving = []"
proof -
  have a: "5000 < clock Ch1 6000 6000 6000 - lastChange Ch1 neighbour_moving"
    "cnt Ch1 neighbour_moving \<noteq> lastSaved Ch1 neighbour_moving"
    "\<not> 5000 < clock Ch2 6000 6000 6000 - lastChange Ch2 neighbour_moving"
    by (simp_all add: neighbour_moving_fields)
  from flush_gating [of Ch1 6000 6000 6000 neighbour_moving]
    flush_gating [of Ch2 6000 6000 6000 neighbour_moving] a
  show ?thesis
    by (simp del: after_save.simps)
qed

subsection \<open>Calibration\<close>

text \<open>
  The claim as stated gives the target as the rounded value. In exact arithmetic
  \<open>25 * 525 / (\<pi> * 7.0)\<close> lies between 596.5 and 597: rounding gives 597, and
  \<open>setup\<close> stores 596.
\<close>

theorem calibration_round_counterexample:
  "sint (steps1 (setup_ino exact_fpu (boot erased))) = 596
   \<and> round (25 * 525 / (pi * 7.0)) = 597"
  using steps_of_25 [OF ieee_exact] round_exact
  by (simp add: setup_steps)

text \<open>
  C6, as amended. The calibration computes
  \<open>stepsPerMM = resolution / (2 * PI * (diameter / 2))\<close> and
  \<open>steps = int(distance * stepsPerMM)\<close>, which truncates toward zero. In exact
  arithmetic this is the truncation of \<open>distance * (resolution / (\<pi> * diameter))\<close>.
  For the distance 25, the resolution 525 and the diameter 7.0, and so for channel 1 of
  the sketch, the result is 596 under every arithmetic that satisfies \<open>ieee\<close>;
  channels 2 and 3 get 835. The result is a function of the inputs, so that repeated
  evaluation gives the same integer.
\<close>

theorem calibration_truncates:
  "steps_of exact_fpu d (stepsPerMM_of exact_fpu res diam) =
     word_of_int (truncate_toward_zero (d * (res / (pi * diam))))
   \<and> steps1 (setup_ino u s) = steps_of u 25 (stepsPerMM_of u 525 7.0)
   \<and> (ieee u \<longrightarrow>
        steps_of u 25 (stepsPerMM_of u 525 7.0) = 596
        \<and> sint (steps1 (setup_ino u s)) = 596
        \<and> sint (steps2 (setup_ino u s)) = 835
        \<and> sint (steps3 (setup_ino u s)) = 835)"
  by (simp add: exact_steps setup_steps steps_of_25 steps_of_35)

text \<open>
  The arithmetic \<open>arduino_fpu\<close> satisfies \<open>ieee\<close>.
\<close>

theorem calibration_truncates_witness:
  "ieee arduino_fpu
   \<and> steps_of arduino_fpu 25 (stepsPerMM_of arduino_fpu 525 7.0) = 596
   \<and> sint (steps1 (setup_ino arduino_fpu (boot erased))) = 596"
  using calibration_truncates [of 25 525 7 arduino_fpu "boot erased"] ieee_arduino
  by simp

subsection \<open>Targets that are not positive\<close>

text \<open>
  With the target 0 and the count \<open>-1\<close> the first condition \<open>c \<ge> T\<close> fails and the
  second one holds: the command is forward, not backward.
\<close>

theorem nonpositive_target_counterexample:
  "sint (steps Ch1 zero_target) \<le> 0
   \<and> runs_of (motor_of Ch1) (issued zero_target (loop 0 0 0 zero_target)) = [FORWARD]"
  using loop_runs [of Ch1 zero_target 0 0 0]
  by (simp add: direction_cmd_def zero_target_def)

text \<open>
  C7, as amended. For a channel whose target \<open>T\<close> is 0 or negative, every iteration
  issues exactly one run command to its motor: backward when the snapshot count \<open>c\<close>
  satisfies \<open>c \<ge> T\<close>, in particular for every \<open>c \<ge> 0\<close>, and forward when \<open>c < T\<close>.
\<close>

theorem nonpositive_target_law:
  assumes "sint (steps ch s) \<le> 0"
  shows "runs_of (motor_of ch) (issued s (loop t1 t2 t3 s)) =
           (if sint (steps ch s) \<le> sint (cnt ch s) then [BACKWARD] else [FORWARD])
         \<and> (0 \<le> sint (cnt ch s) \<longrightarrow>
              runs_of (motor_of ch) (issued s (loop t1 t2 t3 s)) = [BACKWARD])"
  using assms by (simp add: loop_runs direction_cmd_def)

text \<open>
  With the target 0 and the count 7 the command is backward.
\<close>

theorem nonpositive_target_law_witness:
  "sint (steps Ch1 zero_target_home) \<le> 0
   \<and> 0 \<le> sint (cnt Ch1 zero_target_home)
   \<and> runs_of (motor_of Ch1) (issued zero_target_home (loop 0 0 0 zero_target_home)) = [BACKWARD]"
proof -
  have h: "sint (steps Ch1 zero_target_home) \<le> 0"
    by (simp add: zero_target_home_def)
  have c: "0 \<le> sint (cnt Ch1 zero_target_home)"
    by (simp add: zero_target_home_def)
  from nonpositive_target_law [OF h, of 0 0 0] c h show ?thesis
    by simp
qed

subsection \<open>Validity of every record written\<close>

text \<open>
  C8. Every record that \<open>setup\<close> puts carries the marker \<open>0xBEEF\<close>, and so does
  every record put during any sequence of events from any state. Once such a sequence
  has put a record, the EEPROM holds the last record put, which is valid. After
  \<open>setup\<close> and any sequence of events the EEPROM holds a valid record, and
  \<open>loadEEPROM\<close> accepts it and returns its counts.
\<close>

theorem writes_carry_magic:
  "(\<forall>r \<in> set (puts_of (issued s (setup_ino u s))). magic r = 0xBEEF)
   \<and> (\<forall>r \<in> set (puts_of (issued s' (exec evs s'))). magic r = 0xBEEF)
   \<and> (puts_of (issued s' (exec evs s')) \<noteq> [] \<longrightarrow>
        eeprom (exec evs s') = last (puts_of (issued s' (exec evs s')))
        \<and> magic (eeprom (exec evs s')) = 0xBEEF)
   \<and> magic (eeprom (exec evs (setup_ino u s))) = 0xBEEF
   \<and> loadEEPROM (exec evs (setup_ino u s)) o1 o2 o3 =
       (True, p1 (eeprom (exec evs (setup_ino u s))), p2 (eeprom (exec evs (setup_ino u s))),
        p3 (eeprom (exec evs (setup_ino u s))))"
proof -
  have a: "\<forall>r \<in> set (puts_of (issued s (setup_ino u s))). magic r = 0xBEEF"
    by (simp add: setup_issued startup_cmds_def MAGIC_def)
  have b: "\<forall>r \<in> set (puts_of (issued t (exec evs t))). magic r = 0xBEEF" for t
    using exec_invariant [of evs t] by (simp add: MAGIC_def)
  have e: "eeprom (exec evs t) = last (eeprom t # puts_of (issued t (exec evs t)))" for t
    using exec_invariant [of evs t] by simp
  have c: "puts_of (issued s' (exec evs s')) \<noteq> [] \<longrightarrow>
        eeprom (exec evs s') = last (puts_of (issued s' (exec evs s')))
        \<and> magic (eeprom (exec evs s')) = 0xBEEF"
    using b [of s'] by (simp add: e [of s'])
  have d: "magic (eeprom (exec evs (setup_ino u s))) = 0xBEEF"
  proof (cases "puts_of (issued (setup_ino u s) (exec evs (setup_ino u s))) = []")
    case True
    then show ?thesis
      using setup_eeprom_valid [of u s] by (simp add: e [of "setup_ino u s"] MAGIC_def)
  next
    case False
    then show ?thesis
      using b [of "setup_ino u s"] by (simp add: e [of "setup_ino u s"])
  qed
  have "loadEEPROM (exec evs (setup_ino u s)) o1 o2 o3 =
       (True, p1 (eeprom (exec evs (setup_ino u s))), p2 (eeprom (exec evs (setup_ino u s))),
        p3 (eeprom (exec evs (setup_ino u s))))"
    using d by (simp add: loadEEPROM_def MAGIC_def Let_def)
  with a b [of s'] c d show ?thesis
    by blast
qed

text \<open>
  On an erased EEPROM \<open>setup\<close> puts the zero record; the iteration at 6000 ms from
  \<open>neighbour_moving\<close> puts the record \<open>(1, 0, 0)\<close>. Both carry the marker.
\<close>

theorem writes_carry_magic_witness:
  "puts_of (issued (boot erased) (setup_ino exact_fpu (boot erased))) =
     [\<lparr>p1 = 0, p2 = 0, p3 = 0, magic = 0xBEEF\<rparr>]
   \<and> puts_of (issued neighbour_moving (exec [Iteration 6000 6000 6000] neighbour_moving)) =
     [\<lparr>p1 = 1, p2 = 0, p3 = 0, magic = 0xBEEF\<rparr>]
   \<and> eeprom (exec [Iteration 6000 6000 6000] neighbour_moving) =
     \<lparr>p1 = 1, p2 = 0, p3 = 0, magic = 0xBEEF\<rparr>
   \<and> magic (eeprom (exec [Iteration 6000 6000 6000] (setup_ino exact_fpu (boot erased)))) = 0xBEEF"
proof -
  have a: "puts_of (issued (boot erased) (setup_ino exact_fpu (boot erased))) =
     [\<lparr>p1 = 0, p2 = 0, p3 = 0, magic = 0xBEEF\<rparr>]"
    by (simp add: setup_issued startup_cmds_def boot_fields erased_def MAGIC_def)
  have b: "puts_of (issued neighbour_moving (exec [Iteration 6000 6000 6000] neighbour_moving)) =
     [\<lparr>p1 = 1, p2 = 0, p3 = 0, magic = 0xBEEF\<rparr>]"
    by (simp add: exec_single neighbour_moving_puts)
  from writes_carry_magic [of "boot erased" exact_fpu neighbour_moving "[Iteration 6000 6000 6000]"]
  show ?thesis
    by (simp add: a b)
qed

subsection \<open>Direction after startup\<close>

text \<open>
  C9. Whatever the state before \<open>setup\<close>, and so whatever counts are restored, the
  last six calls of \<open>setup\<close> set the speeds 30, 40, 40 and command every motor
  forward: after \<open>setup\<close> each motor runs forward at its configured speed, and
  \<open>setup\<close> issues no other run command.
\<close>

theorem setup_runs_forward:
  "dir (setup_ino u s) m = Some FORWARD
   \<and> speed (setup_ino u s) m = Some (case m of M1 \<Rightarrow> 30 | M2 \<Rightarrow> 40 | M3 \<Rightarrow> 40)
   \<and> runs_of m (issued s (setup_ino u s)) = [FORWARD]
   \<and> issued s (setup_ino u s) =
       map Put (puts_of (issued s (setup_ino u s)))
       @ [SetSpeed M1 30, Run M1 FORWARD, SetSpeed M2 40, Run M2 FORWARD,
          SetSpeed M3 40, Run M3 FORWARD]"
  by (cases m) (simp_all add: setup_dir setup_speed setup_issued startup_cmds_def)

subsection \<open>Frame of a failed restore\<close>

text \<open>
  C10. When the record read from the EEPROM carries a marker other than \<open>MAGIC\<close>,
  \<open>loadEEPROM\<close> returns false and hands back the three reference parameters with the
  values the caller passed in.
\<close>

theorem loadEEPROM_mismatch_frame:
  "magic (eeprom s) \<noteq> MAGIC \<Longrightarrow> loadEEPROM s o1 o2 o3 = (False, o1, o2, o3)"
  by (simp add: loadEEPROM_def)

text \<open>
  An erased EEPROM, with the zeros that \<open>setup\<close> passes in.
\<close>

theorem loadEEPROM_mismatch_frame_witness:
  "magic (eeprom (boot erased)) \<noteq> MAGIC
   \<and> loadEEPROM (boot erased) 0 0 0 = (False, 0, 0, 0)"
proof -
  have h: "magic (eeprom (boot erased)) \<noteq> MAGIC"
    by (simp add: boot_def erased_def MAGIC_def)
  show ?thesis
    using h loadEEPROM_mismatch_frame [OF h, of 0 0 0] by simp
qed

end
